theory Spec2Isabelle
  imports Main
begin

section \<open>The media manager (src/mediamgr/mediamgr.c)\<close>

subsection \<open>Data model\<close>

text \<open>
  The enumerations \<open>mediamgr_auplay\<close> and \<open>mediamgr_state\<close> are declared in
  avs_mediamgr.h, which is not among the sources; their enumerators are the ones
  mediamgr.c names (in \<open>MMroute2Str\<close> and in the call-state switch of
  \<open>mqueue_handler\<close>).
\<close>

datatype mediamgr_auplay =
    MEDIAMGR_AUPLAY_EARPIECE
  | MEDIAMGR_AUPLAY_SPEAKER
  | MEDIAMGR_AUPLAY_HEADSET
  | MEDIAMGR_AUPLAY_BT
  | MEDIAMGR_AUPLAY_LINEOUT
  | MEDIAMGR_AUPLAY_SPDIF
  | MEDIAMGR_AUPLAY_UNKNOWN

datatype mediamgr_state =
    MEDIAMGR_STATE_NORMAL
  | MEDIAMGR_STATE_INCALL
  | MEDIAMGR_STATE_INVIDEOCALL
  | MEDIAMGR_STATE_HOLD
  | MEDIAMGR_STATE_RESUME

datatype mm_route_update_event =
    MM_HEADSET_PLUGGED
  | MM_HEADSET_UNPLUGGED
  | MM_BT_DEVICE_CONNECTED
  | MM_BT_DEVICE_DISCONNECTED
  | MM_SPEAKER_ENABLE_REQUEST
  | MM_SPEAKER_DISABLE_REQUEST
  | MM_CALL_START
  | MM_CALL_STOP
  | MM_VIDEO_CALL_START
  | MM_VIDEO_CALL_STOP

record mm_route_state_machine =
  prefer_loudspeaker :: bool
  bt_device_is_connected :: bool
  wired_hs_is_connected :: bool
  cur_route :: mediamgr_auplay
  route_before_call :: mediamgr_auplay

datatype mm_playback_mode =
    MM_PLAYBACK_NONE
  | MM_PLAYBACK_MIXING
  | MM_PLAYBACK_EXCLUSIVE

text \<open>
  \<open>struct sound\<close> is declared in mm_platform.h (absent). The fields are the ones
  mediamgr.c reads, together with the opaque object handle that registration passes on.
  \<open>intensity\<close> and \<open>priority\<close> are C ints that are only compared, never computed
  with, so they are modelled as integers.
\<close>

record sound =
  media_object :: nat
  mixing :: bool
  incall :: bool
  intensity :: int
  priority :: int
  is_call_media :: bool

text \<open>
  Modelled from the spec: the dictionary (\<open>struct dict\<close>, \<open>dict_lookup\<close>,
  \<open>dict_apply\<close> of avs_dict, not among the sources). The spec calls the sound registry
  a mapping from unique name to sound entry. It is kept as an association list, whose
  order stands for the traversal order of \<open>dict_apply\<close>; \<open>dict_apply\<close> calls the
  handler on every entry in turn and stops as soon as the handler returns true (the
  handlers of mediamgr.c return false to go on, true to stop).
\<close>

type_synonym dict = "(string \<times> sound) list"

definition dict_lookup :: "dict \<Rightarrow> string \<Rightarrow> sound option" where
  "dict_lookup d k = map_of d k"

fun dict_apply :: "dict \<Rightarrow> (string \<Rightarrow> sound \<Rightarrow> 'a \<Rightarrow> bool \<times> 'a) \<Rightarrow> 'a \<Rightarrow> 'a" where
  "dict_apply [] h a = a"
| "dict_apply ((k, v) # d) h a =
     (case h k v a of (stop, a') \<Rightarrow> if stop then a' else dict_apply d h a')"

text \<open>
  \<open>struct mediamgr\<close>. The queue, the thread and the \<open>started\<close> flag belong to the
  message transport and are left out; \<open>mcat_changed_h\<close> is never NULL
  (\<open>mediamgr_alloc\<close> refuses that) and \<open>route_changed_h\<close> may be NULL, which is
  \<open>None\<close> here (\<open>Some h\<close> names the registered handler).
\<close>

record mediamgr =
  sounds :: dict
  prev_call_state :: mediamgr_state
  call_state :: mediamgr_state
  router :: mm_route_state_machine
  intensity_thres :: int
  route_changed_h :: "nat option"

text \<open>
  Everything the media manager does to the outside: calls into the platform layer,
  the two callbacks, and the lines it logs with \<open>info\<close> and \<open>error\<close> (\<open>debug\<close>
  output is not recorded).
\<close>

datatype mm_action =
    Enable_headset
  | Enable_earpiece
  | Enable_speaker
  | Enable_bt_sco
  | Enter_call
  | Exit_call
  | Play_sound sound
  | Pause_sound sound
  | Stop_sound sound
  | RegisterMedia string
  | UnregisterMedia string
  | Route_changed_h nat mediamgr_auplay
  | Mcat_changed_h mediamgr_state
  | Info_route mediamgr_auplay mediamgr_auplay
  | Info_hold
  | Info_resume
  | Error_unsupported_device
  | Error_route_change mediamgr_auplay mediamgr_auplay int
  | Error_no_media string
  | Re_cancel

text \<open>
  The platform layer (mm_platform.h and its per-platform implementations) is not among
  the sources. Its functions are parameters: a record of operations over a platform
  state \<open>'p\<close> of which nothing is assumed. The route enablers return the C \<open>int\<close>
  result together with the new platform state.
\<close>

record 'p mm_platform =
  mm_platform_get_route :: "'p \<Rightarrow> mediamgr_auplay"
  mm_platform_enable_headset :: "'p \<Rightarrow> int \<times> 'p"
  mm_platform_enable_earpiece :: "'p \<Rightarrow> int \<times> 'p"
  mm_platform_enable_speaker :: "'p \<Rightarrow> int \<times> 'p"
  mm_platform_enable_bt_sco :: "'p \<Rightarrow> int \<times> 'p"
  mm_platform_is_sound_playing :: "sound \<Rightarrow> 'p \<Rightarrow> bool"
  mm_platform_play_sound :: "sound \<Rightarrow> 'p \<Rightarrow> 'p"
  mm_platform_pause_sound :: "sound \<Rightarrow> 'p \<Rightarrow> 'p"
  mm_platform_stop_sound :: "sound \<Rightarrow> 'p \<Rightarrow> 'p"
  mm_platform_enter_call :: "'p \<Rightarrow> 'p"
  mm_platform_exit_call :: "'p \<Rightarrow> 'p"
  mm_platform_registerMedia :: "dict \<Rightarrow> string \<Rightarrow> sound \<Rightarrow> 'p \<Rightarrow> dict \<times> 'p"
  mm_platform_unregisterMedia :: "dict \<Rightarrow> string \<Rightarrow> 'p \<Rightarrow> dict \<times> 'p"

text \<open>
  The state the handlers run in: the media manager, the platform, and the actions
  performed so far (oldest first).
\<close>

record 'p mm_world =
  mm :: mediamgr
  plat :: 'p
  trace :: "mm_action list"

definition emit :: "mm_action \<Rightarrow> 'p mm_world \<Rightarrow> 'p mm_world" where
  "emit a w = w\<lparr>trace := trace w @ [a]\<rparr>"

definition platcall :: "mm_action \<Rightarrow> ('p \<Rightarrow> 'p) \<Rightarrow> 'p mm_world \<Rightarrow> 'p mm_world" where
  "platcall a f w = w\<lparr>plat := f (plat w), trace := trace w @ [a]\<rparr>"

definition new_actions :: "'p mm_world \<Rightarrow> 'p mm_world \<Rightarrow> mm_action list" where
  "new_actions w w' = drop (length (trace w)) (trace w')"

definition in_call :: "mediamgr \<Rightarrow> bool" where
  "in_call m = (call_state m = MEDIAMGR_STATE_INCALL \<or> call_state m = MEDIAMGR_STATE_INVIDEOCALL)"

subsection \<open>update_route\<close>

text \<open>
  The first switch of \<open>update_route\<close>: from the media manager, the route the platform
  reports and the event, the new router state and the wanted route.
\<close>

definition route_switch ::
  "mediamgr \<Rightarrow> mediamgr_auplay \<Rightarrow> mm_route_update_event \<Rightarrow> mm_route_state_machine \<times> mediamgr_auplay"
where
  "route_switch m cur event =
    (let r = router m in
     case event of
       MM_HEADSET_PLUGGED \<Rightarrow>
         (r\<lparr>wired_hs_is_connected := True, prefer_loudspeaker := False\<rparr>, MEDIAMGR_AUPLAY_HEADSET)
     | MM_HEADSET_UNPLUGGED \<Rightarrow>
         (let r1 = (if call_state m = MEDIAMGR_STATE_INVIDEOCALL
                    then r\<lparr>prefer_loudspeaker := True\<rparr> else r);
              wanted = (if cur = MEDIAMGR_AUPLAY_SPEAKER then MEDIAMGR_AUPLAY_SPEAKER
                        else if bt_device_is_connected r1 then MEDIAMGR_AUPLAY_BT
                        else if prefer_loudspeaker r1 then MEDIAMGR_AUPLAY_SPEAKER
                        else MEDIAMGR_AUPLAY_EARPIECE)
          in (r1\<lparr>wired_hs_is_connected := False\<rparr>, wanted))
     | MM_BT_DEVICE_CONNECTED \<Rightarrow>
         (r\<lparr>bt_device_is_connected := True\<rparr>,
          if call_state m = MEDIAMGR_STATE_INCALL \<or> call_state m = MEDIAMGR_STATE_INVIDEOCALL
          then MEDIAMGR_AUPLAY_BT else cur)
     | MM_BT_DEVICE_DISCONNECTED \<Rightarrow>
         (r\<lparr>bt_device_is_connected := False\<rparr>,
          if wired_hs_is_connected r then MEDIAMGR_AUPLAY_HEADSET
          else if prefer_loudspeaker r then MEDIAMGR_AUPLAY_SPEAKER
          else MEDIAMGR_AUPLAY_EARPIECE)
     | MM_SPEAKER_ENABLE_REQUEST \<Rightarrow>
         (r\<lparr>prefer_loudspeaker := True\<rparr>, MEDIAMGR_AUPLAY_SPEAKER)
     | MM_SPEAKER_DISABLE_REQUEST \<Rightarrow>
         (r\<lparr>prefer_loudspeaker := False\<rparr>,
          if wired_hs_is_connected r then MEDIAMGR_AUPLAY_HEADSET
          else if bt_device_is_connected r then MEDIAMGR_AUPLAY_BT
          else MEDIAMGR_AUPLAY_EARPIECE)
     | MM_CALL_START \<Rightarrow>
         (r\<lparr>route_before_call := cur\<rparr>,
          if wired_hs_is_connected r then MEDIAMGR_AUPLAY_HEADSET
          else if bt_device_is_connected r then MEDIAMGR_AUPLAY_BT
          else if prefer_loudspeaker r then MEDIAMGR_AUPLAY_SPEAKER
          else MEDIAMGR_AUPLAY_EARPIECE)
     | MM_VIDEO_CALL_START \<Rightarrow>
         (let r1 = r\<lparr>route_before_call := cur\<rparr>;
              wanted = (if wired_hs_is_connected r1 then MEDIAMGR_AUPLAY_HEADSET
                        else if bt_device_is_connected r1 then MEDIAMGR_AUPLAY_BT
                        else MEDIAMGR_AUPLAY_SPEAKER);
              r2 = r1\<lparr>prefer_loudspeaker := True\<rparr>;
              r3 = r2\<lparr>prefer_loudspeaker := False\<rparr>
          in (r3, wanted))
     | MM_CALL_STOP \<Rightarrow> (r\<lparr>prefer_loudspeaker := False\<rparr>, MEDIAMGR_AUPLAY_EARPIECE)
     | MM_VIDEO_CALL_STOP \<Rightarrow> (r\<lparr>prefer_loudspeaker := False\<rparr>, MEDIAMGR_AUPLAY_EARPIECE))"

text \<open>
  The second switch: the platform call for the wanted route, with its result
  (\<open>ret\<close> stays 0 for a route that has no enabler).
\<close>

definition enable_route :: "'p mm_platform \<Rightarrow> mediamgr_auplay \<Rightarrow> 'p mm_world \<Rightarrow> int \<times> 'p mm_world" where
  "enable_route pf wanted w =
    (case wanted of
       MEDIAMGR_AUPLAY_HEADSET \<Rightarrow>
         (case mm_platform_enable_headset pf (plat w) of
            (ret, p) \<Rightarrow> (ret, w\<lparr>plat := p, trace := trace w @ [Enable_headset]\<rparr>))
     | MEDIAMGR_AUPLAY_EARPIECE \<Rightarrow>
         (case mm_platform_enable_earpiece pf (plat w) of
            (ret, p) \<Rightarrow> (ret, w\<lparr>plat := p, trace := trace w @ [Enable_earpiece]\<rparr>))
     | MEDIAMGR_AUPLAY_SPEAKER \<Rightarrow>
         (case mm_platform_enable_speaker pf (plat w) of
            (ret, p) \<Rightarrow> (ret, w\<lparr>plat := p, trace := trace w @ [Enable_speaker]\<rparr>))
     | MEDIAMGR_AUPLAY_BT \<Rightarrow>
         (case mm_platform_enable_bt_sco pf (plat w) of
            (ret, p) \<Rightarrow> (ret, w\<lparr>plat := p, trace := trace w @ [Enable_bt_sco]\<rparr>))
     | _ \<Rightarrow> (0, emit Error_unsupported_device w))"

text \<open>
  The check after the platform call: the route that is reported to the handler, and
  the error line when the change did not happen during a call.
\<close>

definition check_route :: "'p mm_platform \<Rightarrow> mediamgr_auplay \<Rightarrow> int \<Rightarrow> 'p mm_world \<Rightarrow> mediamgr_auplay \<times> 'p mm_world" where
  "check_route pf wanted ret w =
    (let cur = mm_platform_get_route pf (plat w) in
     if wanted \<noteq> cur \<and> ret \<ge> 0 then
       (if call_state (mm w) \<noteq> MEDIAMGR_STATE_INCALL \<and>
           call_state (mm w) \<noteq> MEDIAMGR_STATE_INVIDEOCALL
        then (wanted, w)
        else (cur, emit (Error_route_change wanted cur ret) w))
     else (cur, w))"

definition update_route :: "'p mm_platform \<Rightarrow> mm_route_update_event \<Rightarrow> 'p mm_world \<Rightarrow> 'p mm_world" where
  "update_route pf event w =
    (let cur = mm_platform_get_route pf (plat w);
         sw = route_switch (mm w) cur event;
         wanted = snd sw;
         w1 = emit (Info_route wanted cur) (w\<lparr>mm := (mm w)\<lparr>router := fst sw\<rparr>\<rparr>);
         en = (if wanted \<noteq> cur then enable_route pf wanted w1 else (0, w1));
         ck = check_route pf wanted (fst en) (snd en)
     in case route_changed_h (mm (snd ck)) of
          None \<Rightarrow> snd ck
        | Some h \<Rightarrow> emit (Route_changed_h h (fst ck)) (snd ck))"

subsection \<open>Sounds\<close>

definition stop_playing_during_call ::
  "'p mm_platform \<Rightarrow> string \<Rightarrow> sound \<Rightarrow> 'p mm_world \<Rightarrow> bool \<times> 'p mm_world" where
  "stop_playing_during_call pf key snd' w =
    (False,
     if \<not> incall snd' then
       (if mm_platform_is_sound_playing pf snd' (plat w)
        then platcall (Stop_sound snd') (mm_platform_stop_sound pf snd') w else w)
     else w)"

definition mediamgr_enter_call :: "'p mm_platform \<Rightarrow> 'p mm_world \<Rightarrow> 'p mm_world" where
  "mediamgr_enter_call pf w =
    platcall Enter_call (mm_platform_enter_call pf)
      (dict_apply (sounds (mm w)) (stop_playing_during_call pf) w)"

definition mediamgr_exit_call :: "'p mm_platform \<Rightarrow> 'p mm_world \<Rightarrow> 'p mm_world" where
  "mediamgr_exit_call pf w = platcall Exit_call (mm_platform_exit_call pf) w"

text \<open>\<open>check_play_mode\<close> only queries the platform; the argument it updates is the mode.\<close>

definition check_play_mode ::
  "'p mm_platform \<Rightarrow> 'p \<Rightarrow> string \<Rightarrow> sound \<Rightarrow> mm_playback_mode \<Rightarrow> bool \<times> mm_playback_mode" where
  "check_play_mode pf p key snd' mode =
    (if mm_platform_is_sound_playing pf snd' p then
       (if mixing snd' then (False, MM_PLAYBACK_MIXING) else (True, MM_PLAYBACK_EXCLUSIVE))
     else (False, mode))"

definition stop_play ::
  "'p mm_platform \<Rightarrow> string \<Rightarrow> sound \<Rightarrow> 'p mm_world \<Rightarrow> bool \<times> 'p mm_world" where
  "stop_play pf key snd' w =
    (False,
     if mm_platform_is_sound_playing pf snd' (plat w)
     then platcall (Stop_sound snd') (mm_platform_stop_sound pf snd') w else w)"

definition mediamgr_can_play_sound :: "'p mm_platform \<Rightarrow> mediamgr \<Rightarrow> 'p \<Rightarrow> sound \<Rightarrow> bool" where
  "mediamgr_can_play_sound pf m p to_play =
    (if intensity to_play > intensity_thres m then False
     else if \<not> incall to_play \<and>
             (call_state m = MEDIAMGR_STATE_INCALL \<or> call_state m = MEDIAMGR_STATE_INVIDEOCALL)
     then False
     else if priority to_play > 0 then True
     else (case dict_apply (sounds m) (check_play_mode pf p) MM_PLAYBACK_NONE of
             MM_PLAYBACK_NONE \<Rightarrow> True
           | MM_PLAYBACK_EXCLUSIVE \<Rightarrow> False
           | MM_PLAYBACK_MIXING \<Rightarrow> mixing to_play))"

subsection \<open>The message handler\<close>

text \<open>
  A queued message: the marshal id with the part of the \<open>mm_message\<close> union that the
  handler reads for it. A registration carries the name and the fields of the sound.
\<close>

datatype mm_message =
    MM_MARSHAL_EXIT
  | MM_MARSHAL_PLAY_MEDIA string
  | MM_MARSHAL_PAUSE_MEDIA string
  | MM_MARSHAL_STOP_MEDIA string
  | MM_MARSHAL_CALL_STATE mediamgr_state
  | MM_MARSHAL_ENABLE_SPEAKER bool
  | MM_MARSHAL_HEADSET_CONNECTED bool
  | MM_MARSHAL_BT_DEVICE_CONNECTED bool
  | MM_MARSHAL_REGISTER_MEDIA string sound
  | MM_MARSHAL_DEREGISTER_MEDIA string
  | MM_MARSHAL_SET_INTENSITY int

definition play_media :: "'p mm_platform \<Rightarrow> string \<Rightarrow> 'p mm_world \<Rightarrow> 'p mm_world" where
  "play_media pf mname w =
    (case dict_lookup (sounds (mm w)) mname of
       None \<Rightarrow> emit (Error_no_media mname) w
     | Some curr_sound \<Rightarrow>
         if mediamgr_can_play_sound pf (mm w) (plat w) curr_sound then
           (let w1 = (if priority curr_sound > 0
                      then dict_apply (sounds (mm w)) (stop_play pf) w else w);
                w2 = (if is_call_media curr_sound \<and>
                         (call_state (mm w1) \<noteq> MEDIAMGR_STATE_INCALL \<and>
                          call_state (mm w1) \<noteq> MEDIAMGR_STATE_INVIDEOCALL)
                      then update_route pf MM_CALL_START
                             (platcall Enter_call (mm_platform_enter_call pf) w1)
                      else w1)
            in platcall (Play_sound curr_sound) (mm_platform_play_sound pf curr_sound) w2)
         else w)"

definition pause_media :: "'p mm_platform \<Rightarrow> string \<Rightarrow> 'p mm_world \<Rightarrow> 'p mm_world" where
  "pause_media pf mname w =
    (case dict_lookup (sounds (mm w)) mname of
       None \<Rightarrow> emit (Error_no_media mname) w
     | Some curr_sound \<Rightarrow>
         platcall (Pause_sound curr_sound) (mm_platform_pause_sound pf curr_sound) w)"

definition stop_media :: "'p mm_platform \<Rightarrow> string \<Rightarrow> 'p mm_world \<Rightarrow> 'p mm_world" where
  "stop_media pf mname w =
    (case dict_lookup (sounds (mm w)) mname of
       None \<Rightarrow> emit (Error_no_media mname) w
     | Some curr_sound \<Rightarrow>
         (let w1 = platcall (Stop_sound curr_sound) (mm_platform_stop_sound pf curr_sound) w
          in if is_call_media curr_sound \<and>
                (call_state (mm w1) \<noteq> MEDIAMGR_STATE_INCALL \<and>
                 call_state (mm w1) \<noteq> MEDIAMGR_STATE_INVIDEOCALL)
             then update_route pf MM_CALL_STOP
                    (platcall Exit_call (mm_platform_exit_call pf) w1)
             else w1))"

text \<open>
  The inner switch of the call-state message: the world after it, the route event
  (\<open>None\<close> when \<open>has_changed\<close> stays false) and \<open>fire_callback\<close>.
\<close>

definition call_state_switch ::
  "'p mm_platform \<Rightarrow> mediamgr_state \<Rightarrow> 'p mm_world
     \<Rightarrow> 'p mm_world \<times> mm_route_update_event option \<times> bool" where
  "call_state_switch pf st w =
    (case st of
       MEDIAMGR_STATE_INCALL \<Rightarrow>
         (mediamgr_enter_call pf (w\<lparr>mm := (mm w)\<lparr>call_state := MEDIAMGR_STATE_INCALL\<rparr>\<rparr>),
          Some MM_CALL_START, True)
     | MEDIAMGR_STATE_INVIDEOCALL \<Rightarrow>
         (mediamgr_enter_call pf (w\<lparr>mm := (mm w)\<lparr>call_state := MEDIAMGR_STATE_INVIDEOCALL\<rparr>\<rparr>),
          Some MM_VIDEO_CALL_START, False)
     | MEDIAMGR_STATE_NORMAL \<Rightarrow>
         (mediamgr_exit_call pf (w\<lparr>mm := (mm w)\<lparr>call_state := MEDIAMGR_STATE_NORMAL\<rparr>\<rparr>),
          Some MM_CALL_STOP, True)
     | MEDIAMGR_STATE_HOLD \<Rightarrow>
         if call_state (mm w) = MEDIAMGR_STATE_INCALL \<or>
            call_state (mm w) = MEDIAMGR_STATE_INVIDEOCALL
         then (let w1 = emit Info_hold w
               in (w1\<lparr>mm := (mm w1)\<lparr>prev_call_state := call_state (mm w1),
                                      call_state := MEDIAMGR_STATE_HOLD\<rparr>\<rparr>,
                   Some MM_CALL_STOP, True))
         else (w, None, False)
     | MEDIAMGR_STATE_RESUME \<Rightarrow>
         if call_state (mm w) = MEDIAMGR_STATE_HOLD
         then (let w1 = emit Info_resume w
               in (mediamgr_enter_call pf
                     (w1\<lparr>mm := (mm w1)\<lparr>call_state := prev_call_state (mm w1)\<rparr>\<rparr>),
                   Some MM_CALL_START, True))
         else (w, None, False))"

definition set_call_state :: "'p mm_platform \<Rightarrow> mediamgr_state \<Rightarrow> 'p mm_world \<Rightarrow> 'p mm_world" where
  "set_call_state pf st w =
    (let sw = call_state_switch pf st w;
         w1 = (case fst (snd sw) of
                 None \<Rightarrow> fst sw
               | Some event \<Rightarrow> update_route pf event (fst sw))
     in if snd (snd sw) then emit (Mcat_changed_h st) w1 else w1)"

definition mqueue_handler :: "'p mm_platform \<Rightarrow> mm_message \<Rightarrow> 'p mm_world \<Rightarrow> 'p mm_world" where
  "mqueue_handler pf msg w =
    (case msg of
       MM_MARSHAL_EXIT \<Rightarrow> emit Re_cancel w
     | MM_MARSHAL_PLAY_MEDIA mname \<Rightarrow> play_media pf mname w
     | MM_MARSHAL_PAUSE_MEDIA mname \<Rightarrow> pause_media pf mname w
     | MM_MARSHAL_STOP_MEDIA mname \<Rightarrow> stop_media pf mname w
     | MM_MARSHAL_CALL_STATE st \<Rightarrow> set_call_state pf st w
     | MM_MARSHAL_ENABLE_SPEAKER enable \<Rightarrow>
         update_route pf (if enable then MM_SPEAKER_ENABLE_REQUEST
                          else MM_SPEAKER_DISABLE_REQUEST) w
     | MM_MARSHAL_HEADSET_CONNECTED connected \<Rightarrow>
         update_route pf (if connected then MM_HEADSET_PLUGGED else MM_HEADSET_UNPLUGGED) w
     | MM_MARSHAL_BT_DEVICE_CONNECTED connected \<Rightarrow>
         update_route pf (if connected then MM_BT_DEVICE_CONNECTED
                          else MM_BT_DEVICE_DISCONNECTED) w
     | MM_MARSHAL_REGISTER_MEDIA mname s \<Rightarrow>
         (case mm_platform_registerMedia pf (sounds (mm w)) mname s (plat w) of
            (d, p) \<Rightarrow> w\<lparr>mm := (mm w)\<lparr>sounds := d\<rparr>, plat := p,
                        trace := trace w @ [RegisterMedia mname]\<rparr>)
     | MM_MARSHAL_DEREGISTER_MEDIA mname \<Rightarrow>
         (case mm_platform_unregisterMedia pf (sounds (mm w)) mname (plat w) of
            (d, p) \<Rightarrow> w\<lparr>mm := (mm w)\<lparr>sounds := d\<rparr>, plat := p,
                        trace := trace w @ [UnregisterMedia mname]\<rparr>)
     | MM_MARSHAL_SET_INTENSITY i \<Rightarrow> w\<lparr>mm := (mm w)\<lparr>intensity_thres := i\<rparr>\<rparr>)"

text \<open>The messages of a queue, handled in order.\<close>

fun mqueue_run :: "'p mm_platform \<Rightarrow> mm_message list \<Rightarrow> 'p mm_world \<Rightarrow> 'p mm_world" where
  "mqueue_run pf [] w = w"
| "mqueue_run pf (msg # msgs) w = mqueue_run pf msgs (mqueue_handler pf msg w)"

text \<open>
  The media manager as \<open>mediamgr_alloc\<close> leaves it: zeroed memory, then
  \<open>cur_route\<close> unknown, no route handler and the threshold \<open>MM_INTENSITY_THRES_ALL\<close>.
  That constant and the enumerators with value 0 are declared in absent headers, so
  they are parameters.
\<close>

definition mediamgr_alloc :: "int \<Rightarrow> mediamgr_state \<Rightarrow> mediamgr_auplay \<Rightarrow> mediamgr" where
  "mediamgr_alloc thres_all zero_state zero_route =
    \<lparr>sounds = [],
     prev_call_state = zero_state,
     call_state = zero_state,
     router = \<lparr>prefer_loudspeaker = False, bt_device_is_connected = False,
               wired_hs_is_connected = False, cur_route = MEDIAMGR_AUPLAY_UNKNOWN,
               route_before_call = zero_route\<rparr>,
     intensity_thres = thres_all,
     route_changed_h = None\<rparr>"

definition mediamgr_register_route_change_h :: "nat option \<Rightarrow> mediamgr \<Rightarrow> mediamgr" where
  "mediamgr_register_route_change_h handler m = m\<lparr>route_changed_h := handler\<rparr>"

subsection \<open>A simulated platform\<close>

text \<open>
  Modelled from the spec: one platform layer, to run the handlers on concrete inputs
  (the real ones, mm_platform_*.c/.m, are absent). It keeps the current route, the
  sounds now playing and the call flag. \<open>sim_obeys\<close> says whether the enablers
  change the route, and \<open>sim_ret\<close> is the result they return; the registry is kept
  as the spec describes it, one entry per name. \<open>sim_world\<close> is a freshly allocated
  media manager on it, with route handler 7 registered.
\<close>

record sim_platform =
  sim_route :: mediamgr_auplay
  sim_playing :: "sound list"
  sim_in_call :: bool
  sim_obeys :: bool
  sim_ret :: int

definition sim_enable :: "mediamgr_auplay \<Rightarrow> sim_platform \<Rightarrow> int \<times> sim_platform" where
  "sim_enable r p = (sim_ret p, if sim_obeys p then p\<lparr>sim_route := r\<rparr> else p)"

definition sim :: "sim_platform mm_platform" where
  "sim =
    \<lparr>mm_platform_get_route = sim_route,
     mm_platform_enable_headset = sim_enable MEDIAMGR_AUPLAY_HEADSET,
     mm_platform_enable_earpiece = sim_enable MEDIAMGR_AUPLAY_EARPIECE,
     mm_platform_enable_speaker = sim_enable MEDIAMGR_AUPLAY_SPEAKER,
     mm_platform_enable_bt_sco = sim_enable MEDIAMGR_AUPLAY_BT,
     mm_platform_is_sound_playing = (\<lambda>s p. s \<in> set (sim_playing p)),
     mm_platform_play_sound = (\<lambda>s p. p\<lparr>sim_playing := s # sim_playing p\<rparr>),
     mm_platform_pause_sound = (\<lambda>s p. p\<lparr>sim_playing := removeAll s (sim_playing p)\<rparr>),
     mm_platform_stop_sound = (\<lambda>s p. p\<lparr>sim_playing := removeAll s (sim_playing p)\<rparr>),
     mm_platform_enter_call = (\<lambda>p. p\<lparr>sim_in_call := True\<rparr>),
     mm_platform_exit_call = (\<lambda>p. p\<lparr>sim_in_call := False\<rparr>),
     mm_platform_registerMedia =
       (\<lambda>d name s p. ((name, s) # filter (\<lambda>e. fst e \<noteq> name) d, p)),
     mm_platform_unregisterMedia =
       (\<lambda>d name p. (filter (\<lambda>e. fst e \<noteq> name) d, p))\<rparr>"

definition sim_start :: "bool \<Rightarrow> int \<Rightarrow> sim_platform" where
  "sim_start obeys ret =
    \<lparr>sim_route = MEDIAMGR_AUPLAY_EARPIECE, sim_playing = [], sim_in_call = False,
     sim_obeys = obeys, sim_ret = ret\<rparr>"

definition sim_world :: "bool \<Rightarrow> int \<Rightarrow> sim_platform mm_world" where
  "sim_world obeys ret =
    \<lparr>mm = mediamgr_register_route_change_h (Some 7)
            (mediamgr_alloc 100 MEDIAMGR_STATE_NORMAL MEDIAMGR_AUPLAY_EARPIECE),
     plat = sim_start obeys ret, trace = []\<rparr>"

text \<open>Sample sounds and runs, for evaluating the handlers on concrete inputs.\<close>

definition ringtone :: sound where
  "ringtone = \<lparr>media_object = 1, mixing = False, incall = False, intensity = 50,
               priority = 1, is_call_media = True\<rparr>"

definition notif :: sound where
  "notif = \<lparr>media_object = 2, mixing = True, incall = False, intensity = 20,
            priority = 0, is_call_media = False\<rparr>"

definition ring_silenced :: "sim_platform mm_world" where
  "ring_silenced =
     mqueue_run sim [MM_MARSHAL_REGISTER_MEDIA ''ring'' ringtone, MM_MARSHAL_SET_INTENSITY 10]
       (sim_world True 0)"

definition notif_playing :: "sim_platform mm_world" where
  "notif_playing =
     mqueue_run sim [MM_MARSHAL_REGISTER_MEDIA ''ring'' ringtone,
                     MM_MARSHAL_REGISTER_MEDIA ''notif'' notif,
                     MM_MARSHAL_PLAY_MEDIA ''notif'']
       (sim_world True 0)"

definition speaker_then_ring :: "sim_platform mm_world" where
  "speaker_then_ring =
     mqueue_run sim [MM_MARSHAL_REGISTER_MEDIA ''ring'' ringtone, MM_MARSHAL_ENABLE_SPEAKER True]
       (sim_world True 0)"

definition headset_call_ended :: "sim_platform mm_world" where
  "headset_call_ended =
     mqueue_run sim [MM_MARSHAL_HEADSET_CONNECTED True,
                     MM_MARSHAL_CALL_STATE MEDIAMGR_STATE_INCALL,
                     MM_MARSHAL_CALL_STATE MEDIAMGR_STATE_NORMAL]
       (sim_world True 0)"

definition headset_then_bt :: "sim_platform mm_world" where
  "headset_then_bt =
     mqueue_run sim [MM_MARSHAL_HEADSET_CONNECTED True, MM_MARSHAL_BT_DEVICE_CONNECTED True]
       (sim_world False 0)"

definition headset_plugged :: "sim_platform mm_world" where
  "headset_plugged = mqueue_run sim [MM_MARSHAL_HEADSET_CONNECTED True] (sim_world True 0)"

definition speaker_refused :: "sim_platform mm_world" where
  "speaker_refused = mqueue_handler sim (MM_MARSHAL_ENABLE_SPEAKER True) (sim_world False (- 1))"

definition stuck_in_call :: "sim_platform mm_world" where
  "stuck_in_call =
     mqueue_run sim [MM_MARSHAL_CALL_STATE MEDIAMGR_STATE_INCALL] (sim_world False 0)"

subsection \<open>Kinds of actions\<close>

text \<open>
  Used to state what a handler did: the actions of a route update, the stopping of a
  sound, the call-state callback.
\<close>

fun route_action :: "mm_action \<Rightarrow> bool" where
  "route_action Enable_headset = True"
| "route_action Enable_earpiece = True"
| "route_action Enable_speaker = True"
| "route_action Enable_bt_sco = True"
| "route_action (Route_changed_h h r) = True"
| "route_action (Info_route a b) = True"
| "route_action Error_unsupported_device = True"
| "route_action (Error_route_change a b c) = True"
| "route_action _ = False"

fun stop_action :: "mm_action \<Rightarrow> bool" where
  "stop_action (Stop_sound s) = True"
| "stop_action _ = False"



fun enable_action :: "mm_action \<Rightarrow> bool" where
  "enable_action Enable_headset = True"
| "enable_action Enable_earpiece = True"
| "enable_action Enable_speaker = True"
| "enable_action Enable_bt_sco = True"
| "enable_action _ = False"

text \<open>The wanted routes that the route updates of a trace logged, oldest first.\<close>

fun wanted_routes :: "mm_action list \<Rightarrow> mediamgr_auplay list" where
  "wanted_routes [] = []"
| "wanted_routes (Info_route wanted cur # acts) = wanted # wanted_routes acts"
| "wanted_routes (a # acts) = wanted_routes acts"

fun quiet :: "mm_action \<Rightarrow> bool" where
  "quiet (Mcat_changed_h st) = False"
| "quiet (Play_sound s) = False"
| "quiet _ = True"

section \<open>The fake audio device (src/audio_io/fake_audiodevice.cpp)\<close>

text \<open>
  \<open>struct timeval\<close> with the macros \<open>timeradd\<close> and \<open>timersub\<close> of sys/time.h: the
  fields are added or subtracted and one carry or borrow of a second is made.
\<close>

record timeval =
  tv_sec :: int
  tv_usec :: int

definition timeradd :: "timeval \<Rightarrow> timeval \<Rightarrow> timeval" where
  "timeradd a b =
    (let sec = tv_sec a + tv_sec b; usec = tv_usec a + tv_usec b
     in if usec \<ge> 1000000 then \<lparr>tv_sec = sec + 1, tv_usec = usec - 1000000\<rparr>
        else \<lparr>tv_sec = sec, tv_usec = usec\<rparr>)"

definition timersub :: "timeval \<Rightarrow> timeval \<Rightarrow> timeval" where
  "timersub a b =
    (let sec = tv_sec a - tv_sec b; usec = tv_usec a - tv_usec b
     in if usec < 0 then \<lparr>tv_sec = sec - 1, tv_usec = usec + 1000000\<rparr>
        else \<lparr>tv_sec = sec, tv_usec = usec\<rparr>)"

text \<open>A time in microseconds, and the range of \<open>tv_usec\<close> that \<open>gettimeofday\<close> returns.\<close>

definition usec_of :: "timeval \<Rightarrow> int" where
  "usec_of t = tv_sec t * 1000000 + tv_usec t"

definition normalised :: "timeval \<Rightarrow> bool" where
  "normalised t = (0 \<le> tv_usec t \<and> tv_usec t < 1000000)"

text \<open>
  The members of the device that the two threads read (their names end in an underscore
  in the source), and what a thread does to the outside: the call into the registered
  audio transport, the warning of a missed deadline, and \<open>nanosleep\<close> with its
  nanoseconds.
\<close>

datatype io_kind = Recording | Playout

datatype dev_action =
    RecordedDataIsAvailable nat
  | NeedMorePlayData nat
  | Warning_late io_kind
  | Nanosleep int

record fake_audiodevice =
  audioCallback :: "nat option"
  is_recording :: bool
  is_playing :: bool
  rec_is_initialized :: bool
  play_is_initialized :: bool
  realtime :: bool

text \<open>
  \<open>record_thread\<close> and \<open>playout_thread\<close> have the same body; they differ in the flag
  that ends the loop, in the transport method and in the text of the warning.
  \<open>io_iteration\<close> is one pass through that body after the test of the flag, from the
  deadline \<open>next_io_time\<close> and the time \<open>now\<close> that \<open>gettimeofday\<close> returns after
  the transport call. \<open>FRAME_LEN_MS\<close> is defined in fake_audiodevice.h, which is not
  among the sources, so it is the parameter \<open>frame_len_ms\<close>.

  The loop runs until another thread clears the flag. \<open>io_thread\<close> runs it over what
  the thread observes, one pair per pass: the value of the flag read at the top of the
  loop and the clock reading of that pass. It returns, for every pass made, the clock
  reading, the new deadline and the actions. The deadline the loop starts from is the
  clock reading taken before the loop.
\<close>

definition transport_call :: "io_kind \<Rightarrow> fake_audiodevice \<Rightarrow> dev_action list" where
  "transport_call k d =
    (case audioCallback d of
       None \<Rightarrow> []
     | Some cb \<Rightarrow> (case k of Recording \<Rightarrow> [RecordedDataIsAvailable cb]
                   | Playout \<Rightarrow> [NeedMorePlayData cb]))"

definition io_iteration ::
  "int \<Rightarrow> io_kind \<Rightarrow> fake_audiodevice \<Rightarrow> timeval \<Rightarrow> timeval \<Rightarrow> timeval \<times> dev_action list" where
  "io_iteration frame_len_ms k d next_io_time now =
    (let delta = \<lparr>tv_sec = 0, tv_usec = frame_len_ms * 1000\<rparr>;
         next' = timeradd next_io_time delta;
         sleep_time = timersub next' now;
         late = tv_sec sleep_time < 0;
         sleep_time' = (if late then sleep_time\<lparr>tv_usec := 0\<rparr> else sleep_time);
         t_nsec = tv_usec sleep_time' * 1000
     in (next',
         transport_call k d
         @ (if late then [Warning_late k] else [])
         @ (if realtime d then [Nanosleep t_nsec] else [])))"

fun io_thread ::
  "int \<Rightarrow> io_kind \<Rightarrow> fake_audiodevice \<Rightarrow> timeval \<Rightarrow> (bool \<times> timeval) list
     \<Rightarrow> (timeval \<times> timeval \<times> dev_action list) list" where
  "io_thread frame_len_ms k d next_io_time [] = []"
| "io_thread frame_len_ms k d next_io_time ((running, now) # env) =
    (if \<not> running then []
     else (let it = io_iteration frame_len_ms k d next_io_time now
           in (now, fst it, snd it) # io_thread frame_len_ms k d (fst it) env))"

definition record_thread ::
  "int \<Rightarrow> fake_audiodevice \<Rightarrow> timeval \<Rightarrow> (bool \<times> timeval) list
     \<Rightarrow> (timeval \<times> timeval \<times> dev_action list) list" where
  "record_thread frame_len_ms d start env = io_thread frame_len_ms Recording d start env"

definition playout_thread ::
  "int \<Rightarrow> fake_audiodevice \<Rightarrow> timeval \<Rightarrow> (bool \<times> timeval) list
     \<Rightarrow> (timeval \<times> timeval \<times> dev_action list) list" where
  "playout_thread frame_len_ms d start env = io_thread frame_len_ms Playout d start env"

text \<open>
  What is assumed of the clock when a property needs it: readings are in range, never
  go back, and after \<open>nanosleep\<close> at least the requested time has passed. \<open>t\<close> is the
  earliest time the next reading can show.
\<close>

fun slept_usec :: "dev_action list \<Rightarrow> int" where
  "slept_usec [] = 0"
| "slept_usec (Nanosleep ns # acts) = ns div 1000 + slept_usec acts"
| "slept_usec (a # acts) = slept_usec acts"

fun clock_ok ::
  "int \<Rightarrow> io_kind \<Rightarrow> fake_audiodevice \<Rightarrow> timeval \<Rightarrow> int \<Rightarrow> (bool \<times> timeval) list \<Rightarrow> bool" where
  "clock_ok frame_len_ms k d next_io_time t [] = True"
| "clock_ok frame_len_ms k d next_io_time t ((running, now) # env) =
    (normalised now \<and> t \<le> usec_of now \<and>
     (let it = io_iteration frame_len_ms k d next_io_time now
      in clock_ok frame_len_ms k d (fst it) (usec_of now + slept_usec (snd it)) env))"

text \<open>
  One pass of the loop as the fake device is meant to make it: pass \<open>i\<close> (from 0) has
  the deadline \<open>i + 1\<close> frames after the start; it calls the transport if one is
  registered, warns if the deadline has passed, and in real-time mode sleeps for the time
  left to the deadline (not at all if it has passed); otherwise it never sleeps.
\<close>

definition periodic_iteration ::
  "int \<Rightarrow> io_kind \<Rightarrow> fake_audiodevice \<Rightarrow> timeval \<Rightarrow> nat
     \<Rightarrow> timeval \<times> timeval \<times> dev_action list \<Rightarrow> bool" where
  "periodic_iteration frame_len_ms k d start i it =
    (case it of
       (now, deadline, acts) \<Rightarrow>
         usec_of deadline = usec_of start + (int i + 1) * (frame_len_ms * 1000)
         \<and> acts = transport_call k d
              @ (if usec_of deadline < usec_of now then [Warning_late k] else [])
              @ (if realtime d
                 then [Nanosleep (max 0 (usec_of deadline - usec_of now) * 1000)] else [])
         \<and> (realtime d \<or> (\<forall>ns. Nanosleep ns \<notin> set acts)))"

definition sample_device :: fake_audiodevice where
  "sample_device =
    \<lparr>audioCallback = Some 1, is_recording = True, is_playing = True,
     rec_is_initialized = True, play_is_initialized = True, realtime = True\<rparr>"

definition sample_start :: timeval where
  "sample_start = \<lparr>tv_sec = 5, tv_usec = 995000\<rparr>"

definition sample_clock :: "(bool \<times> timeval) list" where
  "sample_clock =
    [(True, \<lparr>tv_sec = 5, tv_usec = 996000\<rparr>),
     (True, \<lparr>tv_sec = 6, tv_usec = 20000\<rparr>),
     (False, \<lparr>tv_sec = 6, tv_usec = 30000\<rparr>)]"

text \<open>
  Two more sequences of clock readings: one where the wall clock was set back before the
  first pass, and one where the clock only moves forward but every \<open>nanosleep\<close>
  returns early.
\<close>

definition stepped_back_clock :: "(bool \<times> timeval) list" where
  "stepped_back_clock = [(True, \<lparr>tv_sec = 3, tv_usec = 500000\<rparr>)]"

definition early_wake_clock :: "(bool \<times> timeval) list" where
  "early_wake_clock =
    [(True, \<lparr>tv_sec = 5, tv_usec = 1000\<rparr>),
     (True, \<lparr>tv_sec = 5, tv_usec = 2000\<rparr>),
     (True, \<lparr>tv_sec = 5, tv_usec = 3000\<rparr>)]"

section \<open>Payload types (the mediaflow header, src/unnamed/part_000)\<close>











section \<open>Properties\<close>

subsection \<open>Frame lemmas of update_route\<close>

lemma emit_simps [simp]:
  "mm (emit a w) = mm w"
  "plat (emit a w) = plat w"
  "trace (emit a w) = trace w @ [a]"
  by (simp_all add: emit_def)

lemma platcall_simps [simp]:
  "mm (platcall a f w) = mm w"
  "plat (platcall a f w) = f (plat w)"
  "trace (platcall a f w) = trace w @ [a]"
  by (simp_all add: platcall_def)

lemma enable_route_mm: "mm (snd (enable_route pf wanted w)) = mm w"
  by (simp add: enable_route_def split: mediamgr_auplay.splits prod.splits)

lemma check_route_mm: "mm (snd (check_route pf wanted ret w)) = mm w"
  by (simp add: check_route_def Let_def)

lemma enable_route_trace: "\<exists>acts. trace (snd (enable_route pf wanted w)) = trace w @ acts"
  by (simp add: enable_route_def split: mediamgr_auplay.splits prod.splits)

lemma check_route_trace: "\<exists>acts. trace (snd (check_route pf wanted ret w)) = trace w @ acts"
  by (simp add: check_route_def Let_def)

lemma update_route_mm:
  "mm (update_route pf event w) =
     (mm w)\<lparr>router := fst (route_switch (mm w) (mm_platform_get_route pf (plat w)) event)\<rparr>"
  by (simp add: update_route_def Let_def enable_route_mm check_route_mm split: option.splits)

lemma update_route_trace_hd:
  "\<exists>rest. trace (update_route pf event w) =
     trace w @ Info_route (snd (route_switch (mm w) (mm_platform_get_route pf (plat w)) event))
                          (mm_platform_get_route pf (plat w)) # rest"
proof -
  let ?cur = "mm_platform_get_route pf (plat w)"
  let ?sw = "route_switch (mm w) ?cur event"
  define w1 where "w1 = emit (Info_route (snd ?sw) ?cur) (w\<lparr>mm := (mm w)\<lparr>router := fst ?sw\<rparr>\<rparr>)"
  define en where "en = (if snd ?sw \<noteq> ?cur then enable_route pf (snd ?sw) w1 else (0, w1))"
  define ck where "ck = check_route pf (snd ?sw) (fst en) (snd en)"
  have t1: "trace w1 = trace w @ [Info_route (snd ?sw) ?cur]"
    by (simp add: w1_def)
  have t2: "\<exists>rest. trace (snd en) = trace w @ Info_route (snd ?sw) ?cur # rest"
    using enable_route_trace [of pf "snd ?sw" w1] t1 by (auto simp: en_def)
  have t3: "\<exists>rest. trace (snd ck) = trace w @ Info_route (snd ?sw) ?cur # rest"
    using check_route_trace [of pf "snd ?sw" "fst en" "snd en"] t2 by (auto simp: ck_def)
  have "update_route pf event w =
      (case route_changed_h (mm (snd ck)) of None \<Rightarrow> snd ck
       | Some h \<Rightarrow> emit (Route_changed_h h (fst ck)) (snd ck))"
    unfolding update_route_def Let_def ck_def en_def w1_def by (rule refl)
  then show ?thesis
    using t3 by (auto split: option.splits)
qed

lemma enable_route_acts:
  "\<exists>acts. trace (snd (enable_route pf wanted w)) = trace w @ acts \<and> list_all route_action acts"
  by (simp add: enable_route_def split: mediamgr_auplay.splits prod.splits)

lemma check_route_acts:
  "\<exists>acts. trace (snd (check_route pf wanted ret w)) = trace w @ acts \<and> list_all route_action acts"
  by (simp add: check_route_def Let_def)

lemma update_route_acts:
  "\<exists>acts. trace (update_route pf event w) = trace w @ acts \<and> list_all route_action acts"
proof -
  let ?cur = "mm_platform_get_route pf (plat w)"
  let ?sw = "route_switch (mm w) ?cur event"
  define w1 where "w1 = emit (Info_route (snd ?sw) ?cur) (w\<lparr>mm := (mm w)\<lparr>router := fst ?sw\<rparr>\<rparr>)"
  define en where "en = (if snd ?sw \<noteq> ?cur then enable_route pf (snd ?sw) w1 else (0, w1))"
  define ck where "ck = check_route pf (snd ?sw) (fst en) (snd en)"
  have t1: "trace w1 = trace w @ [Info_route (snd ?sw) ?cur]"
    by (simp add: w1_def)
  have "\<exists>a2. trace (snd en) = trace w1 @ a2 \<and> list_all route_action a2"
  proof (cases "snd ?sw \<noteq> ?cur")
    case True
    then show ?thesis using enable_route_acts [of pf "snd ?sw" w1] by (simp add: en_def)
  next
    case False
    then show ?thesis by (simp add: en_def)
  qed
  then obtain a2 where t2: "trace (snd en) = trace w1 @ a2" "list_all route_action a2"
    by blast
  obtain a3 where t3: "trace (snd ck) = trace (snd en) @ a3" "list_all route_action a3"
    using check_route_acts [of pf "snd ?sw" "fst en" "snd en"] unfolding ck_def by blast
  have u: "update_route pf event w =
      (case route_changed_h (mm (snd ck)) of None \<Rightarrow> snd ck
       | Some h \<Rightarrow> emit (Route_changed_h h (fst ck)) (snd ck))"
    unfolding update_route_def Let_def ck_def en_def w1_def by (rule refl)
  show ?thesis
    unfolding u using t1 t2 t3 by (auto split: option.splits)
qed

lemma update_route_plat_frame:
  "sounds (mm (update_route pf event w)) = sounds (mm w)"
  "call_state (mm (update_route pf event w)) = call_state (mm w)"
  "prev_call_state (mm (update_route pf event w)) = prev_call_state (mm w)"
  "intensity_thres (mm (update_route pf event w)) = intensity_thres (mm w)"
  "route_changed_h (mm (update_route pf event w)) = route_changed_h (mm w)"
  by (simp_all add: update_route_mm)

lemma dict_apply_stop_play_mm: "mm (dict_apply d (stop_play pf) w) = mm w"
  by (induction d arbitrary: w) (auto simp: stop_play_def)

lemma dict_apply_stop_play_acts:
  "\<exists>acts. trace (dict_apply d (stop_play pf) w) = trace w @ acts \<and> list_all stop_action acts"
proof (induction d arbitrary: w)
  case Nil
  then show ?case by simp
next
  case (Cons e d)
  obtain k v where e: "e = (k, v)" by (cases e)
  show ?case
  proof (cases "mm_platform_is_sound_playing pf v (plat w)")
    case True
    from Cons.IH [of "platcall (Stop_sound v) (mm_platform_stop_sound pf v) w"]
    show ?thesis using True e by (auto simp: stop_play_def)
  next
    case False
    from Cons.IH [of w] show ?thesis using False e by (auto simp: stop_play_def)
  qed
qed





subsection \<open>What the handlers add to the trace\<close>

lemma new_actions_append: "trace w' = trace w @ acts \<Longrightarrow> new_actions w w' = acts"
  by (simp add: new_actions_def)

lemma route_action_quiet: "route_action a \<Longrightarrow> quiet a"
  by (cases a) simp_all

lemma stop_action_quiet: "stop_action a \<Longrightarrow> quiet a"
  by (cases a) simp_all


lemma update_route_quiet:
  "\<exists>acts. trace (update_route pf event w) = trace w @ acts \<and> list_all quiet acts"
  using update_route_acts [of pf event w] route_action_quiet
  by (auto simp: list_all_iff)

lemma stop_play_quiet:
  "\<exists>acts. trace (dict_apply d (stop_play pf) w) = trace w @ acts \<and> list_all quiet acts"
  using dict_apply_stop_play_acts [of d pf w] stop_action_quiet
  by (auto simp: list_all_iff)





lemma play_media_acts:
  "\<exists>acts. trace (play_media pf mname w) =
      trace w @ acts @
        (case dict_lookup (sounds (mm w)) mname of
           None \<Rightarrow> []
         | Some s \<Rightarrow> if mediamgr_can_play_sound pf (mm w) (plat w) s then [Play_sound s] else [])
    \<and> list_all quiet acts"
proof (cases "dict_lookup (sounds (mm w)) mname")
  case None
  then show ?thesis by (simp add: play_media_def)
next
  case (Some s)
  show ?thesis
  proof (cases "mediamgr_can_play_sound pf (mm w) (plat w) s")
    case False
    then show ?thesis using Some by (simp add: play_media_def)
  next
    case True
    define w1 where "w1 = (if priority s > 0 then dict_apply (sounds (mm w)) (stop_play pf) w else w)"
    define w2 where "w2 = (if is_call_media s \<and>
                         (call_state (mm w1) \<noteq> MEDIAMGR_STATE_INCALL \<and>
                          call_state (mm w1) \<noteq> MEDIAMGR_STATE_INVIDEOCALL)
                      then update_route pf MM_CALL_START
                             (platcall Enter_call (mm_platform_enter_call pf) w1)
                      else w1)"
    have "\<exists>a1. trace w1 = trace w @ a1 \<and> list_all quiet a1"
      using stop_play_quiet [of "sounds (mm w)" pf w] by (simp add: w1_def)
    then obtain a1 where a1: "trace w1 = trace w @ a1" "list_all quiet a1" by blast
    have "\<exists>a2. trace w2 = trace w1 @ a2 \<and> list_all quiet a2"
    proof (cases "is_call_media s \<and>
                         (call_state (mm w1) \<noteq> MEDIAMGR_STATE_INCALL \<and>
                          call_state (mm w1) \<noteq> MEDIAMGR_STATE_INVIDEOCALL)")
      case True
      obtain a where a: "trace (update_route pf MM_CALL_START (platcall Enter_call (mm_platform_enter_call pf) w1))
           = trace (platcall Enter_call (mm_platform_enter_call pf) w1) @ a" "list_all quiet a"
        using update_route_quiet [of pf MM_CALL_START "platcall Enter_call (mm_platform_enter_call pf) w1"]
        by blast
      have "trace w2 = trace w1 @ (Enter_call # a)" using True a(1) by (simp add: w2_def)
      moreover have "list_all quiet (Enter_call # a)" using a(2) by simp
      ultimately show ?thesis by blast
    next
      case False
      then have "w2 = w1" unfolding w2_def by (rule if_not_P)
      then show ?thesis by simp
    qed
    then obtain a2 where a2: "trace w2 = trace w1 @ a2" "list_all quiet a2" by blast
    have "play_media pf mname w = platcall (Play_sound s) (mm_platform_play_sound pf s) w2"
      using Some True by (simp add: play_media_def Let_def w1_def w2_def)
    then have "trace (play_media pf mname w) = trace w @ (a1 @ a2) @ [Play_sound s]"
      using a1(1) a2(1) by simp
    moreover have "list_all quiet (a1 @ a2)" using a1(2) a2(2) by simp
    ultimately show ?thesis using Some True by auto
  qed
qed


lemma new_actions_self [simp]: "new_actions w w = []"
  by (simp add: new_actions_def)


subsection \<open>Evaluation of the sample runs\<close>

lemmas mm_eval =
  mqueue_handler_def play_media_def pause_media_def stop_media_def set_call_state_def
  call_state_switch_def mediamgr_enter_call_def mediamgr_exit_call_def
  mediamgr_can_play_sound_def check_play_mode_def stop_play_def stop_playing_during_call_def
  update_route_def route_switch_def enable_route_def check_route_def
  dict_lookup_def emit_def platcall_def new_actions_def in_call_def Let_def
  sim_def sim_enable_def sim_start_def sim_world_def mediamgr_alloc_def
  mediamgr_register_route_change_h_def

lemma ring_silenced_eq:
  "ring_silenced =
    \<lparr>mm = \<lparr>sounds = [(''ring'', ringtone)], prev_call_state = MEDIAMGR_STATE_NORMAL,
           call_state = MEDIAMGR_STATE_NORMAL,
           router = \<lparr>prefer_loudspeaker = False, bt_device_is_connected = False,
               wired_hs_is_connected = False, cur_route = MEDIAMGR_AUPLAY_UNKNOWN,
               route_before_call = MEDIAMGR_AUPLAY_EARPIECE\<rparr>,
           intensity_thres = 10, route_changed_h = Some 7\<rparr>,
     plat = \<lparr>sim_route = MEDIAMGR_AUPLAY_EARPIECE, sim_playing = [], sim_in_call = False,
             sim_obeys = True, sim_ret = 0\<rparr>,
     trace = [RegisterMedia ''ring'']\<rparr>"
  by (simp add: ring_silenced_def mm_eval)

lemma notif_playing_eq:
  "notif_playing =
    \<lparr>mm = \<lparr>sounds = [(''notif'', notif), (''ring'', ringtone)],
           prev_call_state = MEDIAMGR_STATE_NORMAL,
           call_state = MEDIAMGR_STATE_NORMAL,
           router = \<lparr>prefer_loudspeaker = False, bt_device_is_connected = False,
               wired_hs_is_connected = False, cur_route = MEDIAMGR_AUPLAY_UNKNOWN,
               route_before_call = MEDIAMGR_AUPLAY_EARPIECE\<rparr>,
           intensity_thres = 100, route_changed_h = Some 7\<rparr>,
     plat = \<lparr>sim_route = MEDIAMGR_AUPLAY_EARPIECE, sim_playing = [notif], sim_in_call = False,
             sim_obeys = True, sim_ret = 0\<rparr>,
     trace = [RegisterMedia ''ring'', RegisterMedia ''notif'', Play_sound notif]\<rparr>"
  by (simp add: notif_playing_def mm_eval ringtone_def notif_def)

lemma speaker_then_ring_eq:
  "speaker_then_ring =
    \<lparr>mm = \<lparr>sounds = [(''ring'', ringtone)], prev_call_state = MEDIAMGR_STATE_NORMAL,
           call_state = MEDIAMGR_STATE_NORMAL,
           router = \<lparr>prefer_loudspeaker = True, bt_device_is_connected = False,
               wired_hs_is_connected = False, cur_route = MEDIAMGR_AUPLAY_UNKNOWN,
               route_before_call = MEDIAMGR_AUPLAY_EARPIECE\<rparr>,
           intensity_thres = 100, route_changed_h = Some 7\<rparr>,
     plat = \<lparr>sim_route = MEDIAMGR_AUPLAY_SPEAKER, sim_playing = [], sim_in_call = False,
             sim_obeys = True, sim_ret = 0\<rparr>,
     trace = [RegisterMedia ''ring'', Info_route MEDIAMGR_AUPLAY_SPEAKER MEDIAMGR_AUPLAY_EARPIECE,
              Enable_speaker, Route_changed_h 7 MEDIAMGR_AUPLAY_SPEAKER]\<rparr>"
  by (simp add: speaker_then_ring_def mm_eval)


lemma enable_route_one:
  "\<exists>a. trace (snd (enable_route pf wanted w)) = trace w @ [a]"
  by (simp add: enable_route_def split: mediamgr_auplay.splits prod.splits)

lemma check_route_plat: "plat (snd (check_route pf wanted ret w)) = plat w"
  by (simp add: check_route_def Let_def)

subsection \<open>C1: the video call start\<close>

text \<open>
  C1. Every \<open>MM_VIDEO_CALL_START\<close> event that \<open>update_route\<close> processes saves the
  route the platform reports into \<open>route_before_call\<close>, wants the headset if a wired
  headset is connected, else Bluetooth if a Bluetooth device is connected, else the
  speaker (the wanted route is the one of the \<open>info\<close> line that \<open>update_route\<close> logs
  first), and leaves \<open>prefer_loudspeaker\<close> false; the other router fields keep their
  values.
\<close>

theorem video_call_start_route:
  "route_before_call (router (mm (update_route pf MM_VIDEO_CALL_START w)))
     = mm_platform_get_route pf (plat w)
   \<and> prefer_loudspeaker (router (mm (update_route pf MM_VIDEO_CALL_START w))) = False
   \<and> wired_hs_is_connected (router (mm (update_route pf MM_VIDEO_CALL_START w)))
       = wired_hs_is_connected (router (mm w))
   \<and> bt_device_is_connected (router (mm (update_route pf MM_VIDEO_CALL_START w)))
       = bt_device_is_connected (router (mm w))
   \<and> snd (route_switch (mm w) (mm_platform_get_route pf (plat w)) MM_VIDEO_CALL_START)
       = (if wired_hs_is_connected (router (mm w)) then MEDIAMGR_AUPLAY_HEADSET
          else if bt_device_is_connected (router (mm w)) then MEDIAMGR_AUPLAY_BT
          else MEDIAMGR_AUPLAY_SPEAKER)
   \<and> trace (update_route pf MM_VIDEO_CALL_START w) ! length (trace w)
       = Info_route (if wired_hs_is_connected (router (mm w)) then MEDIAMGR_AUPLAY_HEADSET
                     else if bt_device_is_connected (router (mm w)) then MEDIAMGR_AUPLAY_BT
                     else MEDIAMGR_AUPLAY_SPEAKER)
                    (mm_platform_get_route pf (plat w))"
proof -
  have sw: "snd (route_switch (mm w) (mm_platform_get_route pf (plat w)) MM_VIDEO_CALL_START)
       = (if wired_hs_is_connected (router (mm w)) then MEDIAMGR_AUPLAY_HEADSET
          else if bt_device_is_connected (router (mm w)) then MEDIAMGR_AUPLAY_BT
          else MEDIAMGR_AUPLAY_SPEAKER)"
    by (simp add: route_switch_def Let_def)
  obtain rest where tr: "trace (update_route pf MM_VIDEO_CALL_START w) =
     trace w @ Info_route (snd (route_switch (mm w) (mm_platform_get_route pf (plat w)) MM_VIDEO_CALL_START))
                          (mm_platform_get_route pf (plat w)) # rest"
    using update_route_trace_hd [of pf MM_VIDEO_CALL_START w] by blast
  have nth: "trace (update_route pf MM_VIDEO_CALL_START w) ! length (trace w)
       = Info_route (snd (route_switch (mm w) (mm_platform_get_route pf (plat w)) MM_VIDEO_CALL_START))
                    (mm_platform_get_route pf (plat w))"
    by (simp add: tr)
  show ?thesis
    using sw nth
    by (simp add: update_route_mm route_switch_def Let_def)
qed

subsection \<open>C2: the headset invariant\<close>

text \<open>
  C2, as claimed, fails. Plugging in the headset, starting an audio call and ending it
  leaves the router with the wired headset connected, \<open>prefer_loudspeaker\<close> false and
  no call active, and the route update of the last message wanted the earpiece, which
  is also where the platform ends up. And on a platform that does not follow route
  requests, a Bluetooth device connecting outside a call after the headset was plugged in
  wants the route the platform reports, here the earpiece.
\<close>

theorem headset_not_wanted:
  "wired_hs_is_connected (router (mm headset_call_ended))
   \<and> prefer_loudspeaker (router (mm headset_call_ended)) = False
   \<and> call_state (mm headset_call_ended) = MEDIAMGR_STATE_NORMAL
   \<and> wanted_routes (trace headset_call_ended)
       = [MEDIAMGR_AUPLAY_HEADSET, MEDIAMGR_AUPLAY_HEADSET, MEDIAMGR_AUPLAY_EARPIECE]
   \<and> last (trace headset_call_ended) = Mcat_changed_h MEDIAMGR_STATE_NORMAL
   \<and> mm_platform_get_route sim (plat headset_call_ended) = MEDIAMGR_AUPLAY_EARPIECE
   \<and> wired_hs_is_connected (router (mm headset_then_bt))
   \<and> prefer_loudspeaker (router (mm headset_then_bt)) = False
   \<and> call_state (mm headset_then_bt) = MEDIAMGR_STATE_NORMAL
   \<and> wanted_routes (trace headset_then_bt) = [MEDIAMGR_AUPLAY_HEADSET, MEDIAMGR_AUPLAY_EARPIECE]"
  by (simp add: headset_call_ended_def headset_then_bt_def mm_eval)

text \<open>
  C2, amended. For every state of the media manager and every route event other than
  \<open>MM_CALL_STOP\<close>, \<open>MM_VIDEO_CALL_STOP\<close> and \<open>MM_BT_DEVICE_CONNECTED\<close>: if after
  the event the wired headset is connected and \<open>prefer_loudspeaker\<close> is false, the
  route the event wanted is the headset. The two stop events always want the earpiece,
  and a connecting Bluetooth device wants Bluetooth during a call and otherwise the route
  the platform reports.
\<close>

theorem wanted_headset:
  "(event \<noteq> MM_CALL_STOP \<and> event \<noteq> MM_VIDEO_CALL_STOP \<and> event \<noteq> MM_BT_DEVICE_CONNECTED
      \<and> wired_hs_is_connected (router (mm (update_route pf event w)))
      \<and> \<not> prefer_loudspeaker (router (mm (update_route pf event w)))
     \<longrightarrow> trace (update_route pf event w) ! length (trace w)
           = Info_route MEDIAMGR_AUPLAY_HEADSET (mm_platform_get_route pf (plat w)))
   \<and> (event = MM_CALL_STOP \<or> event = MM_VIDEO_CALL_STOP
     \<longrightarrow> trace (update_route pf event w) ! length (trace w)
           = Info_route MEDIAMGR_AUPLAY_EARPIECE (mm_platform_get_route pf (plat w)))
   \<and> (event = MM_BT_DEVICE_CONNECTED
     \<longrightarrow> trace (update_route pf event w) ! length (trace w)
           = Info_route (if in_call (mm w) then MEDIAMGR_AUPLAY_BT
                         else mm_platform_get_route pf (plat w))
                        (mm_platform_get_route pf (plat w)))"
proof -
  let ?cur = "mm_platform_get_route pf (plat w)"
  obtain rest where tr: "trace (update_route pf event w) =
     trace w @ Info_route (snd (route_switch (mm w) ?cur event)) ?cur # rest"
    using update_route_trace_hd [of pf event w] by blast
  have nth: "trace (update_route pf event w) ! length (trace w)
       = Info_route (snd (route_switch (mm w) ?cur event)) ?cur"
    by (simp add: tr)
  show ?thesis
    unfolding nth update_route_mm
    by (cases event) (simp_all add: route_switch_def Let_def in_call_def)
qed

theorem wanted_headset_witness:
  "wired_hs_is_connected (router (mm (update_route sim MM_CALL_START headset_plugged)))
   \<and> \<not> prefer_loudspeaker (router (mm (update_route sim MM_CALL_START headset_plugged)))
   \<and> trace (update_route sim MM_CALL_START headset_plugged) ! length (trace headset_plugged)
       = Info_route MEDIAMGR_AUPLAY_HEADSET MEDIAMGR_AUPLAY_HEADSET"
proof -
  have h: "wired_hs_is_connected (router (mm (update_route sim MM_CALL_START headset_plugged)))
   \<and> \<not> prefer_loudspeaker (router (mm (update_route sim MM_CALL_START headset_plugged)))"
    by (simp add: headset_plugged_def update_route_mm mm_eval)
  have r: "mm_platform_get_route sim (plat headset_plugged) = MEDIAMGR_AUPLAY_HEADSET"
    by (simp add: headset_plugged_def mm_eval)
  from wanted_headset [of MM_CALL_START sim headset_plugged] h
  have "trace (update_route sim MM_CALL_START headset_plugged) ! length (trace headset_plugged)
       = Info_route MEDIAMGR_AUPLAY_HEADSET (mm_platform_get_route sim (plat headset_plugged))"
    by simp
  with h r show ?thesis by simp
qed

subsection \<open>C5: the check after the platform call\<close>

text \<open>
  C5, as claimed, fails when the platform call returns a negative result: on a platform
  that refuses the speaker (the enabler returns -1 and the route stays on the earpiece),
  with no call active, a speaker request wants the speaker, and the route handler is
  called with the earpiece, not with the wanted route.
\<close>

theorem refused_route_not_assumed:
  "call_state (mm (sim_world False (- 1))) = MEDIAMGR_STATE_NORMAL
   \<and> route_changed_h (mm (sim_world False (- 1))) = Some 7
   \<and> wanted_routes (trace speaker_refused) = [MEDIAMGR_AUPLAY_SPEAKER]
   \<and> mm_platform_get_route sim (plat speaker_refused) = MEDIAMGR_AUPLAY_EARPIECE
   \<and> trace speaker_refused
       = [Info_route MEDIAMGR_AUPLAY_SPEAKER MEDIAMGR_AUPLAY_EARPIECE, Enable_speaker,
          Route_changed_h 7 MEDIAMGR_AUPLAY_EARPIECE]"
  by (simp add: speaker_refused_def mm_eval)

text \<open>
  C5, amended. With \<open>wanted\<close> the wanted route, \<open>ret\<close> the result of the platform call
  (0 when none was made) and \<open>obs\<close> the route the platform reports afterwards: if
  \<open>obs\<close> differs from \<open>wanted\<close> and \<open>ret\<close> is not negative, then outside a call
  the wanted route is taken as the final route, and during a call the error line is logged
  and the final route is \<open>obs\<close>; in every other case the final route is \<open>obs\<close> and
  nothing is logged. Nothing more is asked of the platform after the check (at most one
  enabler call per update, so no retry), and the route handler, if one is registered, is
  called last, with the final route.
\<close>

theorem route_check_outcome:
  "let cur = mm_platform_get_route pf (plat w);
       sw = route_switch (mm w) cur event;
       wanted = snd sw;
       w1 = emit (Info_route wanted cur) (w\<lparr>mm := (mm w)\<lparr>router := fst sw\<rparr>\<rparr>);
       en = (if wanted \<noteq> cur then enable_route pf wanted w1 else (0, w1));
       ret = fst en;
       obs = mm_platform_get_route pf (plat (snd en));
       final = (if wanted \<noteq> obs \<and> 0 \<le> ret \<and> \<not> in_call (mm w) then wanted else obs);
       w' = update_route pf event w
   in plat w' = plat (snd en)
    \<and> trace w' = trace (snd en)
        @ (if wanted \<noteq> obs \<and> 0 \<le> ret \<and> in_call (mm w)
           then [Error_route_change wanted obs ret] else [])
        @ (case route_changed_h (mm w) of None \<Rightarrow> [] | Some h \<Rightarrow> [Route_changed_h h final])
    \<and> length (filter enable_action (new_actions w w')) \<le> 1"
proof -
  define cur where "cur = mm_platform_get_route pf (plat w)"
  define sw where "sw = route_switch (mm w) cur event"
  define wanted where "wanted = snd sw"
  define w1 where "w1 = emit (Info_route wanted cur) (w\<lparr>mm := (mm w)\<lparr>router := fst sw\<rparr>\<rparr>)"
  define en where "en = (if wanted \<noteq> cur then enable_route pf wanted w1 else (0, w1))"
  define ret where "ret = fst en"
  define obs where "obs = mm_platform_get_route pf (plat (snd en))"
  define final where "final = (if wanted \<noteq> obs \<and> 0 \<le> ret \<and> \<not> in_call (mm w) then wanted else obs)"
  define ck where "ck = check_route pf wanted ret (snd en)"
  define w' where "w' = update_route pf event w"
  have m1: "mm w1 = (mm w)\<lparr>router := fst sw\<rparr>" by (simp add: w1_def)
  have m2: "mm (snd en) = (mm w)\<lparr>router := fst sw\<rparr>"
    using enable_route_mm [of pf wanted w1] m1 by (simp add: en_def)
  have u: "w' = (case route_changed_h (mm (snd ck)) of None \<Rightarrow> snd ck
       | Some h \<Rightarrow> emit (Route_changed_h h (fst ck)) (snd ck))"
    unfolding w'_def update_route_def Let_def ck_def ret_def en_def w1_def wanted_def sw_def cur_def
    by (rule refl)
  have ckm: "mm (snd ck) = (mm w)\<lparr>router := fst sw\<rparr>"
    using check_route_mm [of pf wanted ret "snd en"] m2 by (simp add: ck_def)
  have ckp: "plat (snd ck) = plat (snd en)"
    by (simp add: ck_def check_route_plat)
  have ckf: "fst ck = final"
    using m2 by (simp add: ck_def check_route_def Let_def final_def obs_def in_call_def)
  have ckt: "trace (snd ck) = trace (snd en)
        @ (if wanted \<noteq> obs \<and> 0 \<le> ret \<and> in_call (mm w)
           then [Error_route_change wanted obs ret] else [])"
    using m2 by (simp add: ck_def check_route_def Let_def obs_def in_call_def)
  have p: "plat w' = plat (snd en)"
    using ckp by (simp add: u split: option.splits)
  have t: "trace w' = trace (snd en)
        @ (if wanted \<noteq> obs \<and> 0 \<le> ret \<and> in_call (mm w)
           then [Error_route_change wanted obs ret] else [])
        @ (case route_changed_h (mm w) of None \<Rightarrow> [] | Some h \<Rightarrow> [Route_changed_h h final])"
    using ckt ckm ckf by (simp add: u split: option.splits)
  have "\<exists>acts. trace (snd en) = trace w @ Info_route wanted cur # acts
           \<and> length (filter enable_action acts) \<le> 1"
  proof (cases "wanted \<noteq> cur")
    case True
    obtain a where "trace (snd (enable_route pf wanted w1)) = trace w1 @ [a]"
      using enable_route_one [of pf wanted w1] by blast
    then have "trace (snd en) = trace w @ Info_route wanted cur # [a]"
      using True by (simp add: en_def w1_def)
    moreover have "length (filter enable_action [a]) \<le> 1" by simp
    ultimately show ?thesis by blast
  next
    case False
    then have "trace (snd en) = trace w @ Info_route wanted cur # []"
      by (simp add: en_def w1_def)
    then show ?thesis by auto
  qed
  then obtain acts where acts: "trace (snd en) = trace w @ Info_route wanted cur # acts"
    "length (filter enable_action acts) \<le> 1" by blast
  have l: "length (filter enable_action (new_actions w w')) \<le> 1"
    using acts t by (simp add: new_actions_def split: option.splits)
  show ?thesis
    using p t l
    unfolding Let_def w'_def final_def obs_def ret_def en_def w1_def wanted_def sw_def cur_def
    by blast
qed


theorem route_check_outcome_witness:
  "in_call (mm stuck_in_call)
   \<and> new_actions stuck_in_call (update_route sim MM_SPEAKER_ENABLE_REQUEST stuck_in_call)
       = [Info_route MEDIAMGR_AUPLAY_SPEAKER MEDIAMGR_AUPLAY_EARPIECE, Enable_speaker,
          Error_route_change MEDIAMGR_AUPLAY_SPEAKER MEDIAMGR_AUPLAY_EARPIECE 0,
          Route_changed_h 7 MEDIAMGR_AUPLAY_EARPIECE]
   \<and> length (filter enable_action
        (new_actions stuck_in_call (update_route sim MM_SPEAKER_ENABLE_REQUEST stuck_in_call))) \<le> 1"
proof -
  have a: "in_call (mm stuck_in_call)"
    by (simp add: stuck_in_call_def mm_eval)
  have b: "new_actions stuck_in_call (update_route sim MM_SPEAKER_ENABLE_REQUEST stuck_in_call)
       = [Info_route MEDIAMGR_AUPLAY_SPEAKER MEDIAMGR_AUPLAY_EARPIECE, Enable_speaker,
          Error_route_change MEDIAMGR_AUPLAY_SPEAKER MEDIAMGR_AUPLAY_EARPIECE 0,
          Route_changed_h 7 MEDIAMGR_AUPLAY_EARPIECE]"
    by (simp add: stuck_in_call_def mm_eval)
  from route_check_outcome [of sim stuck_in_call MM_SPEAKER_ENABLE_REQUEST]
  have "length (filter enable_action
        (new_actions stuck_in_call (update_route sim MM_SPEAKER_ENABLE_REQUEST stuck_in_call))) \<le> 1"
    unfolding Let_def by blast
  with a b show ?thesis by blast
qed

subsection \<open>C9: hold and resume outside their states\<close>

text \<open>
  C9. A call-state message carrying HOLD that arrives while the call state is neither
  in-call nor in-video-call leaves everything as it was: the media manager (call state,
  previous call state, router, threshold, registry), the platform and the trace, so
  there is no route update and no \<open>mcat_changed\<close> call. In the same way a RESUME
  message does nothing unless the call state is HOLD.
\<close>

theorem hold_resume_guard:
  "(call_state (mm w) \<noteq> MEDIAMGR_STATE_INCALL \<and> call_state (mm w) \<noteq> MEDIAMGR_STATE_INVIDEOCALL
      \<longrightarrow> mqueue_handler pf (MM_MARSHAL_CALL_STATE MEDIAMGR_STATE_HOLD) w = w)
   \<and> (call_state (mm w) \<noteq> MEDIAMGR_STATE_HOLD
      \<longrightarrow> mqueue_handler pf (MM_MARSHAL_CALL_STATE MEDIAMGR_STATE_RESUME) w = w)"
  by (simp add: mqueue_handler_def set_call_state_def call_state_switch_def Let_def)

theorem hold_resume_guard_witness:
  "call_state (mm (sim_world True 0)) = MEDIAMGR_STATE_NORMAL
   \<and> mqueue_handler sim (MM_MARSHAL_CALL_STATE MEDIAMGR_STATE_HOLD) (sim_world True 0)
       = sim_world True 0
   \<and> mqueue_handler sim (MM_MARSHAL_CALL_STATE MEDIAMGR_STATE_RESUME) (sim_world True 0)
       = sim_world True 0"
  using hold_resume_guard [of "sim_world True 0" sim]
  by (simp add: sim_world_def mediamgr_alloc_def mediamgr_register_route_change_h_def)

subsection \<open>C10: when the call-state callback fires\<close>




subsection \<open>C3: the intensity filter\<close>

text \<open>
  C3. A play-media command for a registered sound whose intensity is above the current
  threshold does nothing at all, whatever the sound's priority and mixing flag and
  whatever the call state: the world is returned as it was, so \<open>mm_platform_play_sound\<close>
  is not called. And whatever a play-media command plays is the sound registered under
  the name, with an intensity not above the threshold.
\<close>

theorem intensity_filter:
  "(dict_lookup (sounds (mm w)) mname = Some s \<and> intensity s > intensity_thres (mm w)
      \<longrightarrow> mqueue_handler pf (MM_MARSHAL_PLAY_MEDIA mname) w = w)
   \<and> (Play_sound x \<in> set (new_actions w (mqueue_handler pf (MM_MARSHAL_PLAY_MEDIA mname) w))
      \<longrightarrow> dict_lookup (sounds (mm w)) mname = Some x \<and> intensity x \<le> intensity_thres (mm w))"
proof -
  have a: "dict_lookup (sounds (mm w)) mname = Some s \<and> intensity s > intensity_thres (mm w)
      \<longrightarrow> mqueue_handler pf (MM_MARSHAL_PLAY_MEDIA mname) w = w"
    by (simp add: mqueue_handler_def play_media_def mediamgr_can_play_sound_def)
  have b: "dict_lookup (sounds (mm w)) mname = Some x \<and> intensity x \<le> intensity_thres (mm w)"
    if p: "Play_sound x \<in> set (new_actions w (mqueue_handler pf (MM_MARSHAL_PLAY_MEDIA mname) w))"
  proof -
    obtain acts where acts: "trace (play_media pf mname w) =
      trace w @ acts @
        (case dict_lookup (sounds (mm w)) mname of
           None \<Rightarrow> []
         | Some s \<Rightarrow> if mediamgr_can_play_sound pf (mm w) (plat w) s then [Play_sound s] else [])"
      "list_all quiet acts"
      using play_media_acts [of pf mname w] by blast
    have nq: "Play_sound x \<notin> set acts"
      using acts(2) by (auto simp: list_all_iff)
    have "Play_sound x \<in> set (acts @
        (case dict_lookup (sounds (mm w)) mname of
           None \<Rightarrow> []
         | Some s \<Rightarrow> if mediamgr_can_play_sound pf (mm w) (plat w) s then [Play_sound s] else []))"
      using p acts(1) by (simp add: mqueue_handler_def new_actions_def)
    then have "dict_lookup (sounds (mm w)) mname = Some x \<and> mediamgr_can_play_sound pf (mm w) (plat w) x"
      using nq by (auto split: option.splits if_splits)
    then show ?thesis
      by (auto simp: mediamgr_can_play_sound_def split: if_splits)
  qed
  show ?thesis using a b by blast
qed


theorem intensity_filter_witness:
  "dict_lookup (sounds (mm ring_silenced)) ''ring'' = Some ringtone
   \<and> intensity ringtone > intensity_thres (mm ring_silenced)
   \<and> priority ringtone > 0
   \<and> mqueue_handler sim (MM_MARSHAL_PLAY_MEDIA ''ring'') ring_silenced = ring_silenced"
proof -
  have h: "dict_lookup (sounds (mm ring_silenced)) ''ring'' = Some ringtone
           \<and> intensity ringtone > intensity_thres (mm ring_silenced)"
    by (simp add: ring_silenced_eq dict_lookup_def ringtone_def)
  have p: "priority ringtone > 0" by (simp add: ringtone_def)
  from intensity_filter [of ring_silenced "''ring''" ringtone sim] h
  have "mqueue_handler sim (MM_MARSHAL_PLAY_MEDIA ''ring'') ring_silenced = ring_silenced"
    by blast
  with h p show ?thesis by blast
qed

subsection \<open>C4: a sound with priority stops the others\<close>




subsection \<open>C6: stopping a sound\<close>

text \<open>
  C6, as claimed, fails: stopping a sound that is not playing is not a no-op when the
  sound is call media and no call is active. After registering the ringtone and
  enabling the speaker, a stop-media command for the ringtone (which is not playing)
  leaves the platform call, clears \<open>prefer_loudspeaker\<close> and moves the route from the
  speaker to the earpiece.
\<close>

theorem stop_media_not_noop:
  "dict_lookup (sounds (mm speaker_then_ring)) ''ring'' = Some ringtone
   \<and> \<not> mm_platform_is_sound_playing sim ringtone (plat speaker_then_ring)
   \<and> call_state (mm speaker_then_ring) = MEDIAMGR_STATE_NORMAL
   \<and> prefer_loudspeaker (router (mm speaker_then_ring)) = True
   \<and> prefer_loudspeaker
       (router (mm (mqueue_handler sim (MM_MARSHAL_STOP_MEDIA ''ring'') speaker_then_ring))) = False
   \<and> mm_platform_get_route sim (plat speaker_then_ring) = MEDIAMGR_AUPLAY_SPEAKER
   \<and> mm_platform_get_route sim
       (plat (mqueue_handler sim (MM_MARSHAL_STOP_MEDIA ''ring'') speaker_then_ring))
        = MEDIAMGR_AUPLAY_EARPIECE
   \<and> new_actions speaker_then_ring
       (mqueue_handler sim (MM_MARSHAL_STOP_MEDIA ''ring'') speaker_then_ring)
        = [Stop_sound ringtone, Exit_call,
           Info_route MEDIAMGR_AUPLAY_EARPIECE MEDIAMGR_AUPLAY_SPEAKER, Enable_earpiece,
           Route_changed_h 7 MEDIAMGR_AUPLAY_EARPIECE]"
  by (simp add: speaker_then_ring_eq mm_eval ringtone_def)

text \<open>
  C6, amended. A stop-media command for a registered sound, playing or not, always
  calls \<open>mm_platform_stop_sound\<close> for it and leaves the registry, the call state, the
  previous call state and the threshold as they were. If the sound is not call media,
  or a call is active, that platform call is all the handler does: the router is
  unchanged and nothing else is asked of the platform. If the sound is call media and
  no call is active, the handler also leaves the platform call and runs the route
  update for \<open>MM_CALL_STOP\<close>, which clears \<open>prefer_loudspeaker\<close>.
\<close>

theorem stop_media_effect:
  assumes "dict_lookup (sounds (mm w)) mname = Some s"
  shows "sounds (mm (mqueue_handler pf (MM_MARSHAL_STOP_MEDIA mname) w)) = sounds (mm w)
    \<and> call_state (mm (mqueue_handler pf (MM_MARSHAL_STOP_MEDIA mname) w)) = call_state (mm w)
    \<and> prev_call_state (mm (mqueue_handler pf (MM_MARSHAL_STOP_MEDIA mname) w)) = prev_call_state (mm w)
    \<and> intensity_thres (mm (mqueue_handler pf (MM_MARSHAL_STOP_MEDIA mname) w)) = intensity_thres (mm w)
    \<and> (\<not> is_call_media s \<or> in_call (mm w) \<longrightarrow>
          mqueue_handler pf (MM_MARSHAL_STOP_MEDIA mname) w
            = platcall (Stop_sound s) (mm_platform_stop_sound pf s) w)
    \<and> (is_call_media s \<and> \<not> in_call (mm w) \<longrightarrow>
          mqueue_handler pf (MM_MARSHAL_STOP_MEDIA mname) w
            = update_route pf MM_CALL_STOP
                (platcall Exit_call (mm_platform_exit_call pf)
                   (platcall (Stop_sound s) (mm_platform_stop_sound pf s) w))
          \<and> prefer_loudspeaker (router (mm (mqueue_handler pf (MM_MARSHAL_STOP_MEDIA mname) w))) = False)"
  using assms
  by (simp add: mqueue_handler_def stop_media_def Let_def in_call_def update_route_mm route_switch_def)


theorem stop_media_effect_witness:
  "dict_lookup (sounds (mm notif_playing)) ''notif'' = Some notif
   \<and> \<not> is_call_media notif
   \<and> mqueue_handler sim (MM_MARSHAL_STOP_MEDIA ''notif'') notif_playing
       = platcall (Stop_sound notif) (mm_platform_stop_sound sim notif) notif_playing
   \<and> router (mm (mqueue_handler sim (MM_MARSHAL_STOP_MEDIA ''notif'') notif_playing))
       = router (mm notif_playing)"
proof -
  have h: "dict_lookup (sounds (mm notif_playing)) ''notif'' = Some notif"
    by (simp add: notif_playing_eq dict_lookup_def)
  have n: "\<not> is_call_media notif" by (simp add: notif_def)
  from stop_media_effect [OF h, of sim] n
  have e: "mqueue_handler sim (MM_MARSHAL_STOP_MEDIA ''notif'') notif_playing
       = platcall (Stop_sound notif) (mm_platform_stop_sound sim notif) notif_playing"
    by blast
  then have "router (mm (mqueue_handler sim (MM_MARSHAL_STOP_MEDIA ''notif'') notif_playing))
       = router (mm notif_playing)" by simp
  with h n e show ?thesis by blast
qed

section \<open>The fake audio device: properties\<close>

lemma usec_timeradd: "usec_of (timeradd a b) = usec_of a + usec_of b"
  by (simp add: timeradd_def usec_of_def Let_def)

lemma usec_timersub: "usec_of (timersub a b) = usec_of a - usec_of b"
  by (simp add: timersub_def usec_of_def Let_def)

lemma normalised_timeradd:
  "normalised a \<Longrightarrow> normalised b \<Longrightarrow> normalised (timeradd a b)"
  by (auto simp: timeradd_def normalised_def Let_def)

lemma normalised_timersub:
  "normalised a \<Longrightarrow> normalised b \<Longrightarrow> normalised (timersub a b)"
  by (auto simp: timersub_def normalised_def Let_def)

lemma normalised_sec:
  assumes "normalised t"
  shows "(tv_sec t < 0) = (usec_of t < 0)" and "(tv_sec t = 0) = (0 \<le> usec_of t \<and> usec_of t < 1000000)"
  using assms by (auto simp: normalised_def usec_of_def)

lemma io_iteration_deadline:
  "usec_of (fst (io_iteration F k d next now)) = usec_of next + F * 1000"
  by (simp add: io_iteration_def Let_def usec_timeradd) (simp add: usec_of_def)

lemma normalised_delta:
  "0 \<le> F \<Longrightarrow> F < 1000 \<Longrightarrow> normalised \<lparr>tv_sec = 0, tv_usec = F * 1000\<rparr>"
  by (simp add: normalised_def)

lemma io_iteration_normalised:
  "normalised next \<Longrightarrow> 0 \<le> F \<Longrightarrow> F < 1000 \<Longrightarrow> normalised (fst (io_iteration F k d next now))"
  using normalised_timeradd [OF _ normalised_delta]
  by (simp add: io_iteration_def Let_def)

lemma io_iteration_acts:
  assumes nn: "normalised next" and nw: "normalised now" and F: "0 \<le> F" "F < 1000"
    and rem: "usec_of next + F * 1000 - usec_of now < 1000000"
  shows "snd (io_iteration F k d next now) =
     transport_call k d
     @ (if usec_of next + F * 1000 < usec_of now then [Warning_late k] else [])
     @ (if realtime d then [Nanosleep (max 0 (usec_of next + F * 1000 - usec_of now) * 1000)] else [])"
proof -
  define next' where "next' = timeradd next \<lparr>tv_sec = 0, tv_usec = F * 1000\<rparr>"
  define st where "st = timersub next' now"
  have n': "normalised next'"
    unfolding next'_def using normalised_timeradd [OF nn normalised_delta [OF F]] .
  have u': "usec_of next' = usec_of next + F * 1000"
    by (simp add: next'_def usec_timeradd) (simp add: usec_of_def)
  have nst: "normalised st" using n' nw by (simp add: st_def normalised_timersub)
  have ust: "usec_of st = usec_of next + F * 1000 - usec_of now"
    by (simp add: st_def usec_timersub u')
  have late: "(tv_sec st < 0) = (usec_of next + F * 1000 < usec_of now)"
    using normalised_sec(1) [OF nst] ust by auto
  have sl: "tv_usec (if tv_sec st < 0 then st\<lparr>tv_usec := 0\<rparr> else st)
       = max 0 (usec_of next + F * 1000 - usec_of now)"
  proof (cases "tv_sec st < 0")
    case True
    then show ?thesis using late by simp
  next
    case False
    then have "0 \<le> usec_of st" using normalised_sec(1) [OF nst] by simp
    moreover have "usec_of st < 1000000" using ust rem by simp
    ultimately have "tv_sec st = 0" using normalised_sec(2) [OF nst] by simp
    then have "tv_usec st = usec_of st" by (simp add: usec_of_def)
    then show ?thesis using False ust \<open>0 \<le> usec_of st\<close> by simp
  qed
  have "snd (io_iteration F k d next now) =
     transport_call k d
     @ (if tv_sec st < 0 then [Warning_late k] else [])
     @ (if realtime d then [Nanosleep (tv_usec (if tv_sec st < 0 then st\<lparr>tv_usec := 0\<rparr> else st) * 1000)] else [])"
    unfolding io_iteration_def Let_def st_def next'_def by simp
  then show ?thesis using late sl by simp
qed


lemma slept_usec_append: "slept_usec (a @ b) = slept_usec a + slept_usec b"
  by (induction a rule: slept_usec.induct) simp_all

lemma slept_transport_call [simp]: "slept_usec (transport_call k d) = 0"
  by (simp add: transport_call_def split: option.splits io_kind.splits)

lemma io_thread_iterations:
  assumes F: "0 \<le> F" "F < 1000"
  shows "normalised nio \<Longrightarrow> (realtime d \<longrightarrow> usec_of nio \<le> t) \<Longrightarrow> clock_ok F k d nio t env
    \<Longrightarrow> i < length (io_thread F k d nio env)
    \<Longrightarrow> (case io_thread F k d nio env ! i of
          (now, deadline, acts) \<Rightarrow>
            usec_of deadline = usec_of nio + (int i + 1) * (F * 1000)
          \<and> acts = transport_call k d
                @ (if usec_of deadline < usec_of now then [Warning_late k] else [])
                @ (if realtime d
                   then [Nanosleep (max 0 (usec_of deadline - usec_of now) * 1000)] else []))"
proof (induction env arbitrary: nio t i)
  case Nil
  then show ?case by simp
next
  case (Cons e env)
  obtain running now where e: "e = (running, now)" by (cases e)
  have run: "running" using Cons.prems(4) e by (auto split: if_splits)
  define it where "it = io_iteration F k d nio now"
  have thread: "io_thread F k d nio (e # env) = (now, fst it, snd it) # io_thread F k d (fst it) env"
    using run e by (simp add: it_def Let_def)
  have nnow: "normalised now" and tnow: "t \<le> usec_of now"
    and rest: "clock_ok F k d (fst it) (usec_of now + slept_usec (snd it)) env"
    using Cons.prems(3) e by (simp_all add: it_def Let_def)
  have dl: "usec_of (fst it) = usec_of nio + F * 1000"
    by (simp add: it_def io_iteration_deadline)
  have nn': "normalised (fst it)"
    using io_iteration_normalised [OF Cons.prems(1) F] by (simp add: it_def)
  have acts: "snd it = transport_call k d
                @ (if usec_of (fst it) < usec_of now then [Warning_late k] else [])
                @ (if realtime d
                   then [Nanosleep (max 0 (usec_of (fst it) - usec_of now) * 1000)] else [])"
  proof (cases "realtime d")
    case True
    then have "usec_of nio + F * 1000 - usec_of now < 1000000"
      using Cons.prems(2) tnow F by simp
    from io_iteration_acts [OF Cons.prems(1) nnow F this, of k d]
    show ?thesis by (simp add: it_def dl [unfolded it_def])
  next
    case False
    define st where "st = timersub (fst it) now"
    have nst: "normalised st" using nn' nnow by (simp add: st_def normalised_timersub)
    have "(tv_sec st < 0) = (usec_of (fst it) < usec_of now)"
      using normalised_sec(1) [OF nst] by (simp add: st_def usec_timersub)
    moreover have "snd it = transport_call k d @ (if tv_sec st < 0 then [Warning_late k] else [])"
      using False unfolding it_def st_def io_iteration_def Let_def by simp
    ultimately show ?thesis using False by simp
  qed
  show ?case
  proof (cases i)
    case 0
    then show ?thesis using thread dl acts by simp
  next
    case (Suc j)
    have inv: "realtime d \<longrightarrow> usec_of (fst it) \<le> usec_of now + slept_usec (snd it)"
    proof
      assume "realtime d"
      then have "slept_usec (snd it) = max 0 (usec_of (fst it) - usec_of now)"
        using acts by (simp add: slept_usec_append)
      then show "usec_of (fst it) \<le> usec_of now + slept_usec (snd it)" by simp
    qed
    have j: "j < length (io_thread F k d (fst it) env)"
      using Cons.prems(4) thread Suc by simp
    from Cons.IH [OF nn' inv rest j]
    show ?thesis using thread Suc dl by (simp add: algebra_simps split: prod.splits)
  qed
qed


lemma transport_call_no_sleep: "Nanosleep ns \<notin> set (transport_call k d)"
  by (simp add: transport_call_def split: option.splits io_kind.splits)

subsection \<open>Passes on a well-behaved clock\<close>

text \<open>
  With a frame length below one second, on a clock that does not go back and on which
  \<open>nanosleep\<close> lasts at least as long as asked, every pass finds less than one second
  left to its deadline, so that every pass is as \<open>periodic_iteration\<close> describes.
\<close>

lemma sane_clock_passes:
  assumes "0 \<le> F" and "F < 1000" and "normalised start"
  shows "(clock_ok F Recording d start (usec_of start) env
            \<and> i < length (record_thread F d start env)
          \<longrightarrow> periodic_iteration F Recording d start i (record_thread F d start env ! i))
       \<and> (clock_ok F Playout d start (usec_of start) env
            \<and> i < length (playout_thread F d start env)
          \<longrightarrow> periodic_iteration F Playout d start i (playout_thread F d start env ! i))"
proof -
  have gen: "periodic_iteration F k d start i (io_thread F k d start env ! i)"
    if c: "clock_ok F k d start (usec_of start) env" and i: "i < length (io_thread F k d start env)"
    for k
  proof -
    obtain now deadline acts where it: "io_thread F k d start env ! i = (now, deadline, acts)"
      by (cases "io_thread F k d start env ! i")
    have r: "realtime d \<longrightarrow> usec_of start \<le> usec_of start" by simp
    from io_thread_iterations [OF assms(1,2) assms(3) r c i]
    have a: "usec_of deadline = usec_of start + (int i + 1) * (F * 1000)"
      and b: "acts = transport_call k d
                @ (if usec_of deadline < usec_of now then [Warning_late k] else [])
                @ (if realtime d
                   then [Nanosleep (max 0 (usec_of deadline - usec_of now) * 1000)] else [])"
      using it by simp_all
    have "realtime d \<or> (\<forall>ns. Nanosleep ns \<notin> set acts)"
    proof (cases "realtime d")
      case True
      then show ?thesis by simp
    next
      case False
      have "\<forall>ns. Nanosleep ns \<notin> set acts"
        using False transport_call_no_sleep [of _ k d] by (subst b) simp
      then show ?thesis by simp
    qed
    with a b show ?thesis by (simp add: periodic_iteration_def it)
  qed
  show ?thesis
    using gen [of Recording] gen [of Playout]
    by (simp add: record_thread_def playout_thread_def)
qed

subsection \<open>What every pass does\<close>

lemma io_thread_pass:
  "i < length (io_thread F k d nio env) \<Longrightarrow> io_thread F k d nio env ! i = (now, deadline, acts)
    \<Longrightarrow> \<exists>n. usec_of n = usec_of nio + int i * (F * 1000)
          \<and> (normalised nio \<and> 0 \<le> F \<and> F < 1000 \<longrightarrow> normalised n)
          \<and> io_iteration F k d n now = (deadline, acts)"
proof (induction env arbitrary: nio i)
  case Nil
  then show ?case by simp
next
  case (Cons e env)
  obtain running now0 where e: "e = (running, now0)" by (cases e)
  have run: "running" using Cons.prems(1) e by (auto split: if_splits)
  define it where "it = io_iteration F k d nio now0"
  have thread: "io_thread F k d nio (e # env) = (now0, fst it, snd it) # io_thread F k d (fst it) env"
    using run e by (simp add: it_def Let_def)
  show ?case
  proof (cases i)
    case 0
    then have "(now0, fst it, snd it) = (now, deadline, acts)"
      using Cons.prems(2) thread by simp
    then have "io_iteration F k d nio now = (deadline, acts)"
      by (auto simp: it_def prod_eq_iff)
    then show ?thesis using 0 by auto
  next
    case (Suc j)
    have j: "j < length (io_thread F k d (fst it) env)"
      using Cons.prems(1) thread Suc by simp
    have jj: "io_thread F k d (fst it) env ! j = (now, deadline, acts)"
      using Cons.prems(2) thread Suc by simp
    from Cons.IH [OF j jj] obtain n where n:
      "usec_of n = usec_of (fst it) + int j * (F * 1000)"
      "normalised (fst it) \<and> 0 \<le> F \<and> F < 1000 \<longrightarrow> normalised n"
      "io_iteration F k d n now = (deadline, acts)" by blast
    have u: "usec_of n = usec_of nio + int i * (F * 1000)"
      using n(1) Suc by (simp add: it_def io_iteration_deadline algebra_simps)
    have nn: "normalised nio \<and> 0 \<le> F \<and> F < 1000 \<longrightarrow> normalised n"
      using n(2) io_iteration_normalised [of nio F k d now0] by (auto simp: it_def)
    show ?thesis using u nn n(3) by blast
  qed
qed

lemma io_iteration_shape:
  "\<exists>rest. snd (io_iteration F k d n now) =
      (case audioCallback d of
         None \<Rightarrow> []
       | Some cb \<Rightarrow> [case k of Recording \<Rightarrow> RecordedDataIsAvailable cb
                      | Playout \<Rightarrow> NeedMorePlayData cb]) @ rest
    \<and> (\<forall>cb. RecordedDataIsAvailable cb \<notin> set rest \<and> NeedMorePlayData cb \<notin> set rest)
    \<and> (\<not> realtime d \<longrightarrow> (\<forall>ns. Nanosleep ns \<notin> set rest))
    \<and> (realtime d \<longrightarrow> (\<exists>ns. rest \<noteq> [] \<and> last rest = Nanosleep ns))"
  by (cases k) (auto simp: io_iteration_def Let_def transport_call_def split: option.splits)

lemmas dev_eval =
  record_thread_def playout_thread_def sample_device_def sample_start_def sample_clock_def
  io_iteration_def transport_call_def timeradd_def timersub_def Let_def
  normalised_def usec_of_def stepped_back_clock_def early_wake_clock_def

subsection \<open>C8: the periodic record and playout threads\<close>

text \<open>
  C8, as claimed, fails: a pass does not always sleep until the next deadline. The
  threads ask \<open>nanosleep\<close> for \<open>sleep_time.tv_usec\<close> only and set \<open>tv_sec\<close> to
  0, so with a second or more left they sleep for the fraction of a second alone. In
  real-time mode, with frames of 10 ms and the wall clock set back to 3.5 s after a start
  at 5.995 s, the first pass of the record thread has 2.505 s left and asks for 0.505 s.
  With frames of 400 ms and sleeps that return early, the third pass of the playout
  thread has 1.197 s left and asks for 0.197 s.
\<close>

theorem sleep_short_of_deadline:
  "realtime sample_device
   \<and> record_thread 10 sample_device sample_start stepped_back_clock ! 0
       = (\<lparr>tv_sec = 3, tv_usec = 500000\<rparr>, \<lparr>tv_sec = 6, tv_usec = 5000\<rparr>,
          [RecordedDataIsAvailable 1, Nanosleep 505000000])
   \<and> usec_of \<lparr>tv_sec = 6, tv_usec = 5000\<rparr> - usec_of \<lparr>tv_sec = 3, tv_usec = 500000\<rparr> = 2505000
   \<and> playout_thread 400 sample_device \<lparr>tv_sec = 5, tv_usec = 0\<rparr> early_wake_clock ! 2
       = (\<lparr>tv_sec = 5, tv_usec = 3000\<rparr>, \<lparr>tv_sec = 6, tv_usec = 200000\<rparr>,
          [NeedMorePlayData 1, Nanosleep 197000000])
   \<and> usec_of \<lparr>tv_sec = 6, tv_usec = 200000\<rparr> - usec_of \<lparr>tv_sec = 5, tv_usec = 3000\<rparr> = 1197000"
  by (simp add: dev_eval)

text \<open>
  C8, amended. Every pass of the record thread and of the playout thread moves the
  deadline on by exactly the frame length; it calls the registered transport once, as its
  first action, when one is registered (\<open>RecordedDataIsAvailable\<close> when recording,
  \<open>NeedMorePlayData\<close> when playing) and not at all otherwise; when real-time mode is
  off it never calls \<open>nanosleep\<close>; when it is on, the call of \<open>nanosleep\<close> is its
  last action. In real-time mode, with a frame length below one second and clock readings
  in range, a pass with less than one second left sleeps for exactly the time left to the
  deadline, and a pass whose deadline has passed warns and sleeps for no time.
\<close>

theorem fake_device_pass:
  assumes len: "i < length (case k of Recording \<Rightarrow> record_thread F d start env
                             | Playout \<Rightarrow> playout_thread F d start env)"
    and pass: "(case k of Recording \<Rightarrow> record_thread F d start env
                | Playout \<Rightarrow> playout_thread F d start env) ! i = (now, deadline, acts)"
  shows "usec_of deadline = usec_of start + (int i + 1) * (F * 1000)
    \<and> (\<exists>rest. acts =
          (case audioCallback d of
             None \<Rightarrow> []
           | Some cb \<Rightarrow> [case k of Recording \<Rightarrow> RecordedDataIsAvailable cb
                          | Playout \<Rightarrow> NeedMorePlayData cb]) @ rest
        \<and> (\<forall>cb. RecordedDataIsAvailable cb \<notin> set rest \<and> NeedMorePlayData cb \<notin> set rest))
    \<and> (\<not> realtime d \<longrightarrow> (\<forall>ns. Nanosleep ns \<notin> set acts))
    \<and> (realtime d \<longrightarrow> (\<exists>ns. acts \<noteq> [] \<and> last acts = Nanosleep ns))
    \<and> (realtime d \<and> normalised start \<and> normalised now \<and> 0 \<le> F \<and> F < 1000
          \<and> usec_of deadline - usec_of now < 1000000
        \<longrightarrow> acts =
          (case audioCallback d of
             None \<Rightarrow> []
           | Some cb \<Rightarrow> [case k of Recording \<Rightarrow> RecordedDataIsAvailable cb
                          | Playout \<Rightarrow> NeedMorePlayData cb])
          @ (if usec_of deadline < usec_of now then [Warning_late k] else [])
          @ [Nanosleep (max 0 (usec_of deadline - usec_of now) * 1000)])"
proof -
  have th: "(case k of Recording \<Rightarrow> record_thread F d start env
                | Playout \<Rightarrow> playout_thread F d start env) = io_thread F k d start env"
    by (cases k) (simp_all add: record_thread_def playout_thread_def)
  from io_thread_pass [of i F k d start env now deadline acts] len pass
  obtain n where n: "usec_of n = usec_of start + int i * (F * 1000)"
      "normalised start \<and> 0 \<le> F \<and> F < 1000 \<longrightarrow> normalised n"
      "io_iteration F k d n now = (deadline, acts)"
    unfolding th by blast
  let ?cb = "case audioCallback d of
             None \<Rightarrow> []
           | Some cb \<Rightarrow> [case k of Recording \<Rightarrow> RecordedDataIsAvailable cb
                          | Playout \<Rightarrow> NeedMorePlayData cb]"
  have tc: "transport_call k d = ?cb"
    by (simp add: transport_call_def split: option.splits io_kind.splits)
  have dl: "usec_of deadline = usec_of start + (int i + 1) * (F * 1000)"
    using io_iteration_deadline [of F k d n now] n(1,3) by (simp add: algebra_simps)
  obtain rest where rest: "acts = ?cb @ rest"
      "\<forall>cb. RecordedDataIsAvailable cb \<notin> set rest \<and> NeedMorePlayData cb \<notin> set rest"
      "\<not> realtime d \<longrightarrow> (\<forall>ns. Nanosleep ns \<notin> set rest)"
      "realtime d \<longrightarrow> (\<exists>ns. rest \<noteq> [] \<and> last rest = Nanosleep ns)"
    using io_iteration_shape [of F k d n now] n(3) by auto
  have cbn: "\<forall>ns. Nanosleep ns \<notin> set ?cb"
    by (cases k) (simp_all split: option.splits)
  have nosleep: "\<not> realtime d \<longrightarrow> (\<forall>ns. Nanosleep ns \<notin> set acts)"
    using rest(1,3) cbn by auto
  have lastsleep: "realtime d \<longrightarrow> (\<exists>ns. acts \<noteq> [] \<and> last acts = Nanosleep ns)"
    using rest(1,4) by auto
  have exact: "acts = ?cb
          @ (if usec_of deadline < usec_of now then [Warning_late k] else [])
          @ [Nanosleep (max 0 (usec_of deadline - usec_of now) * 1000)]"
    if h: "realtime d \<and> normalised start \<and> normalised now \<and> 0 \<le> F \<and> F < 1000
          \<and> usec_of deadline - usec_of now < 1000000"
  proof -
    have nn: "normalised n" using n(2) h by simp
    have d': "usec_of deadline = usec_of n + F * 1000"
      using io_iteration_deadline [of F k d n now] n(3) by simp
    have rem: "usec_of n + F * 1000 - usec_of now < 1000000" using h d' by simp
    from io_iteration_acts [OF nn _ _ _ rem, of k d] h n(3) d' tc
    show ?thesis by simp
  qed
  show ?thesis
    using dl rest(1,2) nosleep lastsleep exact by blast
qed

theorem fake_device_pass_witness:
  "record_thread 10 sample_device sample_start sample_clock ! 1
       = (\<lparr>tv_sec = 6, tv_usec = 20000\<rparr>, \<lparr>tv_sec = 6, tv_usec = 15000\<rparr>,
          [RecordedDataIsAvailable 1, Warning_late Recording, Nanosleep 0])
   \<and> usec_of \<lparr>tv_sec = 6, tv_usec = 15000\<rparr> = usec_of sample_start + (int 1 + 1) * (10 * 1000)
   \<and> playout_thread 10 sample_device sample_start sample_clock ! 0
       = (\<lparr>tv_sec = 5, tv_usec = 996000\<rparr>, \<lparr>tv_sec = 6, tv_usec = 5000\<rparr>,
          [NeedMorePlayData 1, Nanosleep 9000000])
   \<and> usec_of \<lparr>tv_sec = 6, tv_usec = 5000\<rparr> = usec_of sample_start + (int 0 + 1) * (10 * 1000)
   \<and> realtime sample_device \<and> normalised sample_start
   \<and> usec_of \<lparr>tv_sec = 6, tv_usec = 5000\<rparr> - usec_of \<lparr>tv_sec = 5, tv_usec = 996000\<rparr> < 1000000"
proof -
  have r: "record_thread 10 sample_device sample_start sample_clock ! 1
       = (\<lparr>tv_sec = 6, tv_usec = 20000\<rparr>, \<lparr>tv_sec = 6, tv_usec = 15000\<rparr>,
          [RecordedDataIsAvailable 1, Warning_late Recording, Nanosleep 0])"
    and rl: "1 < length (record_thread 10 sample_device sample_start sample_clock)"
    by (simp_all add: dev_eval)
  have p: "playout_thread 10 sample_device sample_start sample_clock ! 0
       = (\<lparr>tv_sec = 5, tv_usec = 996000\<rparr>, \<lparr>tv_sec = 6, tv_usec = 5000\<rparr>,
          [NeedMorePlayData 1, Nanosleep 9000000])"
    and pl: "0 < length (playout_thread 10 sample_device sample_start sample_clock)"
    by (simp_all add: dev_eval)
  have side: "realtime sample_device \<and> normalised sample_start
   \<and> usec_of \<lparr>tv_sec = 6, tv_usec = 5000\<rparr> - usec_of \<lparr>tv_sec = 5, tv_usec = 996000\<rparr> < 1000000"
    by (simp add: dev_eval)
  from fake_device_pass [where i = 1 and k = Recording and F = 10 and d = sample_device
      and start = sample_start and env = sample_clock
      and now = "\<lparr>tv_sec = 6, tv_usec = 20000\<rparr>"
      and deadline = "\<lparr>tv_sec = 6, tv_usec = 15000\<rparr>"
      and acts = "[RecordedDataIsAvailable 1, Warning_late Recording, Nanosleep 0]"] r rl
  have a: "usec_of \<lparr>tv_sec = 6, tv_usec = 15000\<rparr> = usec_of sample_start + (int 1 + 1) * (10 * 1000)"
    by simp
  from fake_device_pass [where i = 0 and k = Playout and F = 10 and d = sample_device
      and start = sample_start and env = sample_clock
      and now = "\<lparr>tv_sec = 5, tv_usec = 996000\<rparr>"
      and deadline = "\<lparr>tv_sec = 6, tv_usec = 5000\<rparr>"
      and acts = "[NeedMorePlayData 1, Nanosleep 9000000]"] p pl
  have b: "usec_of \<lparr>tv_sec = 6, tv_usec = 5000\<rparr> = usec_of sample_start + (int 0 + 1) * (10 * 1000)"
    by simp
  show ?thesis using r p a b side by blast
qed


section \<open>Payload types: properties\<close>



subsection \<open>C7: the negotiated payload types\<close>




end
